theory Spec2Isabelle
  imports Complex_Main "HOL-Library.Word"
begin

unbundle bit_operations_syntax

section \<open>JavaScript values\<close>

text \<open>
  A JavaScript string is a sequence of UTF-16 code units; \<open>charCodeAt\<close> reads one of them
  as a number between 0 and 65535. String literals of the source are written with \<open>js\<close>.
\<close>

type_synonym jsstring = "16 word list"

definition js :: "string \<Rightarrow> jsstring" where
  "js s = map (\<lambda>c. of_nat (of_char c)) s"

text \<open>
  The bitwise operators of JavaScript convert their operands to 32-bit integers (ToInt32)
  and give a signed 32-bit result; every other arithmetic operator works on the numbers
  themselves. The numbers of the checksum loop stay far below \<open>2 ^ 53\<close>, where the
  arithmetic of doubles is exact, so they are integers here.
\<close>

definition js_shl :: "int \<Rightarrow> nat \<Rightarrow> int" where
  "js_shl a n = sint (push_bit (n mod 32) (word_of_int a :: 32 word))"

definition js_and :: "int \<Rightarrow> int \<Rightarrow> int" where
  "js_and a b = sint ((word_of_int a :: 32 word) AND word_of_int b)"

text \<open>\<open>Number.prototype.toString(16)\<close> on an integer: the digits of the absolute value in
  base 16, lower case, after a minus sign when the number is negative.\<close>

definition hex_digit :: "int \<Rightarrow> 16 word" where
  "hex_digit d = (if d < 10 then of_int (48 + d) else of_int (87 + d))"

function hex_digits :: "int \<Rightarrow> jsstring" where
  "hex_digits n = (if n < 16 then [hex_digit n] else hex_digits (n div 16) @ [hex_digit (n mod 16)])"
  by pat_completeness auto
termination
  by (relation "measure nat") auto

declare hex_digits.simps [simp del]

definition toString16 :: "int \<Rightarrow> jsstring" where
  "toString16 n = (if n < 0 then js ''-'' @ hex_digits (- n) else hex_digits n)"

section \<open>Checksums\<close>

text \<open>
  \<open>calculateChecksum\<close> of the enhanced-features module:
  \<^verbatim>\<open>
    let hash = 0;
    for (let i = 0; i < data.length; i++) {
        const char = data.charCodeAt(i);
        hash = (hash << 5) - hash + char;
        hash = hash & hash; // Convert to 32bit integer
    }
    return hash.toString(16);
  \<close>
\<close>

fun calculateChecksum_loop :: "int \<Rightarrow> jsstring \<Rightarrow> int" where
  "calculateChecksum_loop hash [] = hash"
| "calculateChecksum_loop hash (c # cs) =
     (let char = uint c;
          hash1 = (js_shl hash 5) - hash + char;
          hash2 = js_and hash1 hash1
      in calculateChecksum_loop hash2 cs)"

definition calculateChecksum :: "jsstring \<Rightarrow> jsstring" where
  "calculateChecksum data = toString16 (calculateChecksum_loop 0 data)"

text \<open>\<open>generateChecksum\<close> of the settings module has the same loop, with the subtraction
  in brackets: \<^verbatim>\<open>hash = ((hash << 5) - hash) + char;\<close>\<close>

fun generateChecksum_loop :: "int \<Rightarrow> jsstring \<Rightarrow> int" where
  "generateChecksum_loop hash [] = hash"
| "generateChecksum_loop hash (c # cs) =
     (let char = uint c;
          hash1 = ((js_shl hash 5) - hash) + char;
          hash2 = js_and hash1 hash1
      in generateChecksum_loop hash2 cs)"

definition generateChecksum :: "jsstring \<Rightarrow> jsstring" where
  "generateChecksum data = toString16 (generateChecksum_loop 0 data)"

text \<open>
  The checksum in the words of the specification: a rolling hash \<open>h := (h << 5) - h + c\<close>
  over the code units, folded into a 32-bit signed integer, rendered in base 16.
\<close>

definition rolling_hash :: "jsstring \<Rightarrow> 32 word" where
  "rolling_hash s = foldl (\<lambda>h c. push_bit 5 h - h + ucast c) 0 s"

definition checksum_spec :: "jsstring \<Rightarrow> jsstring" where
  "checksum_spec s = toString16 (sint (rolling_hash s))"

section \<open>The backup-history ledger\<close>

text \<open>
  The enhanced-features module keeps the ledger in the variable \<open>backupHistory\<close> and
  writes it to the extension's storage after every change. \<open>addToBackupHistory(entry)\<close>
  builds the stored entry from the caller's object, each missing (falsy) field replaced by
  its default, puts it in front with \<open>unshift\<close> and cuts the list with
  \<open>slice(0, 50)\<close> when it has more than 50 entries.
\<close>

record backup_entry =
  entry_type :: "jsstring option"
  entry_cookieCount :: "nat option"
  entry_size :: "nat option"
  entry_filename :: "jsstring option"
  entry_encrypted :: "bool option"

record history_entry =
  h_id :: int
  h_date :: jsstring
  h_type :: jsstring
  h_cookieCount :: nat
  h_size :: nat
  h_filename :: jsstring
  h_encrypted :: bool

text \<open>\<open>x || d\<close> on an optional string, number and boolean: the empty string, 0 and
  \<open>false\<close> are falsy, as a missing field is.\<close>

definition or_string :: "jsstring option \<Rightarrow> jsstring \<Rightarrow> jsstring" where
  "or_string x d = (case x of None \<Rightarrow> d | Some s \<Rightarrow> if s = [] then d else s)"

definition or_nat :: "nat option \<Rightarrow> nat \<Rightarrow> nat" where
  "or_nat x d = (case x of None \<Rightarrow> d | Some n \<Rightarrow> if n = 0 then d else n)"

definition or_bool :: "bool option \<Rightarrow> bool \<Rightarrow> bool" where
  "or_bool x d = (case x of None \<Rightarrow> d | Some b \<Rightarrow> if b then b else d)"

definition historyEntry :: "int \<Rightarrow> jsstring \<Rightarrow> backup_entry \<Rightarrow> history_entry" where
  "historyEntry now stamp entry =
     \<lparr> h_id = now, h_date = stamp,
       h_type = or_string (entry_type entry) (js ''manual''),
       h_cookieCount = or_nat (entry_cookieCount entry) 0,
       h_size = or_nat (entry_size entry) 0,
       h_filename = or_string (entry_filename entry) (js ''unknown''),
       h_encrypted = or_bool (entry_encrypted entry) False \<rparr>"

text \<open>The arguments \<open>now\<close> and \<open>stamp\<close> are the clock readings \<open>Date.now()\<close> and
  \<open>new Date().toISOString()\<close>; the last argument is \<open>backupHistory\<close> before the call
  and the result is \<open>backupHistory\<close> after it, the list that is written to storage.\<close>

definition addToBackupHistory ::
  "int \<Rightarrow> jsstring \<Rightarrow> backup_entry \<Rightarrow> history_entry list \<Rightarrow> history_entry list" where
  "addToBackupHistory now stamp entry backupHistory =
     (let unshifted = historyEntry now stamp entry # backupHistory
      in if length unshifted > 50 then take 50 unshifted else unshifted)"

text \<open>
  \<open>addToBackupHistory(type, filename, cookieCount)\<close> of the backup-core module reads the
  list from storage (\<open>history.backupHistory || []\<close>), puts its own kind of entry in front
  and sets \<open>backupHistory.length = 50\<close> when the list has more than 50 entries.
\<close>

record core_history_entry =
  ch_timestamp :: jsstring
  ch_type :: jsstring
  ch_filename :: jsstring
  ch_cookieCount :: nat

definition core_addToBackupHistory ::
  "jsstring \<Rightarrow> jsstring \<Rightarrow> jsstring \<Rightarrow> nat \<Rightarrow> core_history_entry list option
     \<Rightarrow> core_history_entry list" where
  "core_addToBackupHistory stamp type filename cookieCount stored =
     (let backupHistory = (case stored of None \<Rightarrow> [] | Some h \<Rightarrow> h);
          unshifted = \<lparr> ch_timestamp = stamp, ch_type = type, ch_filename = filename,
                        ch_cookieCount = cookieCount \<rparr> # backupHistory
      in if length unshifted > 50 then take 50 unshifted else unshifted)"

section \<open>Cookies, JSON values and the built-in functions\<close>

text \<open>
  A cookie record as the browser hands it out and as a backup file carries it. Every
  field is optional: \<open>None\<close> is a property that the object does not have
  (\<open>undefined\<close> when read). \<open>c_url\<close> is the property that the restore adds before it
  calls \<open>chrome.cookies.set\<close>; the argument of that call is the same object, changed
  in place, so it has the same type. The expiration date is a number of seconds; the
  finite numbers of JavaScript are rationals and are compared by their values.
\<close>

record cookie =
  c_name :: "jsstring option"
  c_value :: "jsstring option"
  c_domain :: "jsstring option"
  c_path :: "jsstring option"
  c_secure :: "bool option"
  c_httpOnly :: "bool option"
  c_sameSite :: "jsstring option"
  c_hostOnly :: "bool option"
  c_session :: "bool option"
  c_expirationDate :: "rat option"
  c_storeId :: "jsstring option"
  c_url :: "jsstring option"

text \<open>
  The values that \<open>JSON.parse\<close> returns, as far as this program looks into them: a
  primitive value, an array of cookie objects, or an object with primitive values in its
  properties (the wrapper of a backup file, or the ciphertext object of the cipher
  library).
\<close>

datatype jsprim = PNull | PBool bool | PNum rat | PStr jsstring

datatype json = Prim jsprim | Arr "cookie list" | Obj "(jsstring \<times> jsprim) list"

datatype exn = SjclCorrupt | SjclInvalid | SyntaxError | TypeError | Error jsstring

text \<open>
  \<open>JSON.stringify\<close>, \<open>JSON.parse\<close> and the cipher library \<open>sjcl\<close> are not code of this
  repository. They are parameters of the model: \<open>JSON_parse\<close> returns \<open>None\<close> when it
  raises a SyntaxError; \<open>sjcl_encrypt\<close> takes the key size of the call's options (the
  popup passes \<open>{ ks: 256 }\<close>, the backup-core module none), the password and the plain
  text; \<open>sjcl_decrypt\<close> takes the password and the value it is called with, and raises
  \<open>sjcl.exception.corrupt\<close>, \<open>sjcl.exception.invalid\<close> or another error.
\<close>

record builtins =
  JSON_stringify :: "json \<Rightarrow> jsstring"
  JSON_parse :: "jsstring \<Rightarrow> json option"
  sjcl_encrypt :: "nat option \<Rightarrow> jsstring \<Rightarrow> jsstring \<Rightarrow> jsstring"
  sjcl_decrypt :: "jsstring \<Rightarrow> jsprim \<Rightarrow> exn + jsstring"

text \<open>Truthiness of a primitive value, and of a property that may be missing.\<close>

fun truthy :: "jsprim \<Rightarrow> bool" where
  "truthy PNull = False"
| "truthy (PBool b) = b"
| "truthy (PNum n) = (n \<noteq> 0)"
| "truthy (PStr s) = (s \<noteq> [])"

definition truthy_string :: "jsstring option \<Rightarrow> bool" where
  "truthy_string x = (case x of None \<Rightarrow> False | Some s \<Rightarrow> s \<noteq> [])"

text \<open>A string in a template or a concatenation; \<open>undefined\<close> is written out.\<close>

definition toString_opt :: "jsstring option \<Rightarrow> jsstring" where
  "toString_opt x = (case x of None \<Rightarrow> js ''undefined'' | Some s \<Rightarrow> s)"

definition startsWith :: "jsstring \<Rightarrow> jsstring \<Rightarrow> bool" where
  "startsWith s p = (take (length p) s = p)"

text \<open>Reading a property of a parsed value: \<open>null\<close> has no properties and the read
  raises a TypeError; a primitive value or an array has none of the wrapper's
  properties.\<close>

definition get_property :: "json \<Rightarrow> jsstring \<Rightarrow> exn + jsprim option" where
  "get_property w key =
     (case w of
        Prim PNull \<Rightarrow> Inl TypeError
      | Prim _ \<Rightarrow> Inr None
      | Arr _ \<Rightarrow> Inr None
      | Obj kvs \<Rightarrow> Inr (map_of kvs key))"

section \<open>Compression and the envelope\<close>

text \<open>\<open>compressData\<close> and \<open>decompressData\<close> return their argument as it is.\<close>

definition compressData :: "jsstring \<Rightarrow> jsstring" where
  "compressData data = data"

definition decompressData :: "jsstring \<Rightarrow> jsstring" where
  "decompressData data = data"

text \<open>
  \<open>calculateChecksum\<close> called on a property value of the wrapper. A string gives its
  checksum. A number or a boolean has no \<open>length\<close>, the loop body never runs and the
  result is the text of 0; reading \<open>null.length\<close> raises a TypeError.
\<close>

fun calculateChecksum_value :: "jsprim \<Rightarrow> exn + jsstring" where
  "calculateChecksum_value (PStr s) = Inr (calculateChecksum s)"
| "calculateChecksum_value PNull = Inl TypeError"
| "calculateChecksum_value _ = Inr (toString16 0)"

text \<open>
  The wrapper object that \<open>handleEncPasswdSubmit\<close> builds around the ciphertext:
  \<^verbatim>\<open>
    let data = { v: 1, payload: cipherText, checksum: null };
    if (window.enhancedFeatures) {
      data.checksum = window.enhancedFeatures.calculateChecksum(cipherText);
    }
  \<close>
  The flag \<open>enhanced\<close> says whether \<open>window.enhancedFeatures\<close> is there.
\<close>

definition wrap :: "bool \<Rightarrow> jsstring \<Rightarrow> json" where
  "wrap enhanced cipherText =
     Obj [(js ''v'', PNum 1),
          (js ''payload'', PStr cipherText),
          (js ''checksum'', if enhanced then PStr (calculateChecksum cipherText) else PNull)]"

text \<open>
  The condition under which \<open>handleDecPasswdSubmit\<close> takes a parsed value for a
  wrapper: \<^verbatim>\<open>wrapper.v === 1 && wrapper.payload\<close>.
\<close>

definition is_wrapper :: "json \<Rightarrow> bool" where
  "is_wrapper w =
     (case get_property w (js ''v'') of
        Inl _ \<Rightarrow> False
      | Inr v \<Rightarrow> v = Some (PNum 1) \<and>
          (case get_property w (js ''payload'') of
             Inr (Some p) \<Rightarrow> truthy p
           | _ \<Rightarrow> False))"

text \<open>
  The inner \<open>try\<close> block of \<open>handleDecPasswdSubmit\<close>:
  \<^verbatim>\<open>
    const wrapper = JSON.parse(data);
    if (wrapper.v === 1 && wrapper.payload) {
      encryptedData = wrapper.payload;
      expectedChecksum = wrapper.checksum;
      if (expectedChecksum && window.enhancedFeatures) {
        const actualChecksum = window.enhancedFeatures.calculateChecksum(encryptedData);
        if (actualChecksum !== expectedChecksum) {
          throw new Error('Checksum verification failed');
        }
      }
    }
  \<close>
  The result is the exception that leaves the block, or the value of \<open>encryptedData\<close>
  at its end (which starts as \<open>data\<close>).
\<close>

definition unwrap_try :: "builtins \<Rightarrow> bool \<Rightarrow> jsstring \<Rightarrow> exn + jsprim" where
  "unwrap_try B enhanced data =
     (case JSON_parse B data of
        None \<Rightarrow> Inl SyntaxError
      | Some wrapper \<Rightarrow>
          (case get_property wrapper (js ''v'') of
             Inl e \<Rightarrow> Inl e
           | Inr v \<Rightarrow>
               (case get_property wrapper (js ''payload'') of
                  Inl e \<Rightarrow> Inl e
                | Inr payload \<Rightarrow>
                    (case payload of
                       None \<Rightarrow> Inr (PStr data)
                     | Some encryptedData \<Rightarrow>
                         if v = Some (PNum 1) \<and> truthy encryptedData then
                           (case get_property wrapper (js ''checksum'') of
                              Inl e \<Rightarrow> Inl e
                            | Inr None \<Rightarrow> Inr encryptedData
                            | Inr (Some expectedChecksum) \<Rightarrow>
                                if truthy expectedChecksum \<and> enhanced then
                                  (case calculateChecksum_value encryptedData of
                                     Inl e \<Rightarrow> Inl e
                                   | Inr actualChecksum \<Rightarrow>
                                       if PStr actualChecksum \<noteq> expectedChecksum
                                       then Inl (Error (js ''Checksum verification failed''))
                                       else Inr encryptedData)
                                else Inr encryptedData)
                         else Inr (PStr data)))))"

text \<open>The block's handler, \<^verbatim>\<open>catch (e) { encryptedData = data; }\<close>, takes every
  exception of the block; \<open>unwrap\<close> is the value that goes on to \<open>sjcl.decrypt\<close>.\<close>

definition unwrap :: "builtins \<Rightarrow> bool \<Rightarrow> jsstring \<Rightarrow> jsprim" where
  "unwrap B enhanced data =
     (case unwrap_try B enhanced data of
        Inl e \<Rightarrow> PStr data
      | Inr encryptedData \<Rightarrow> encryptedData)"

section \<open>The backup producers\<close>

datatype event =
    Alert jsstring
  | ShowUpgradeModal
  | Download jsstring jsstring
  | TelegramPush jsstring jsstring
  | BackupSuccessAlert nat
  | HistoryAdd backup_entry
  | CoreHistoryAdd jsstring jsstring nat
  | Warning jsstring
  | SuccessMessage jsstring
  | ConsoleError "jsstring option" jsstring
  | InitProgress nat
  | UpdateProgress nat
  | HideProgress
  | CookieSet cookie
  | CookieRemove jsstring "jsstring option"
  | RestoreSuccessAlert nat nat
  | Uncaught exn

text \<open>
  What \<open>handleEncPasswdSubmit\<close> reads from the page and the browser: the two Telegram
  check boxes, the answer of \<open>isFeatureAvailable('telegram_backup')\<close>, the trimmed
  password and profile name, whether the extension API is there, whether
  \<open>window.enhancedFeatures\<close> is there, \<open>window.selectedDomainsForBackup\<close>, the result of
  \<open>chrome.cookies.getAll\<close>, and the date and time as \<open>toLocaleDateString\<close> and
  \<open>toLocaleTimeString\<close> give them, with \<open>-\<close> for the separators.
\<close>

record enc_input =
  alsoSendTelegram :: bool
  telegramAvailable :: bool
  pass :: jsstring
  chromeAvailable :: bool
  enhancedFeatures :: bool
  selectedDomainsForBackup :: "jsstring list option"
  allCookies :: "cookie list"
  profileInput :: jsstring
  date :: jsstring
  time :: jsstring
  sendToTelegram :: bool

definition cookieFilter :: "jsstring list option \<Rightarrow> cookie \<Rightarrow> bool" where
  "cookieFilter selected c =
     (case selected of
        None \<Rightarrow> True
      | Some ds \<Rightarrow> if length ds > 0
                   then (case c_domain c of None \<Rightarrow> False | Some d \<Rightarrow> d \<in> set ds)
                   else True)"

text \<open>\<^verbatim>\<open>profileName.replace(/[<>\"'&]/g, '').slice(0, 30)\<close>; the code units are
  those of \<open><\<close>, \<open>>\<close>, the double and the single quote, and \<open>&\<close>.\<close>

definition sanitize :: "jsstring \<Rightarrow> jsstring" where
  "sanitize profileName = take 30 (filter (\<lambda>c. c \<notin> set [60, 62, 34, 39, 38]) profileName)"

definition enc_filename :: "jsstring \<Rightarrow> jsstring \<Rightarrow> jsstring \<Rightarrow> jsstring" where
  "enc_filename profileName d t =
     (if profileName \<noteq> []
      then js ''cookies-'' @ profileName @ js ''-'' @ d @ js ''-'' @ t @ js ''.ckz''
      else js ''cookies-'' @ d @ js ''-'' @ t @ js ''.ckz'')"

text \<open>The text that \<open>handleEncPasswdSubmit\<close> writes, \<open>JSON.stringify(data)\<close>, as a
  function of the cookies that passed the filter.\<close>

definition backup_text :: "builtins \<Rightarrow> bool \<Rightarrow> jsstring \<Rightarrow> cookie list \<Rightarrow> jsstring" where
  "backup_text B enhanced pw cookies =
     (let cookieData = JSON_stringify B (Arr cookies);
          compressedData = (if enhanced then compressData cookieData else cookieData);
          cipherText = sjcl_encrypt B (Some 256) pw compressedData;
          data = wrap enhanced cipherText
      in JSON_stringify B data)"

text \<open>
  \<open>handleEncPasswdSubmit\<close>, as the list of what it shows, writes and sends, in order.
  The progress display and the saved profile name are left out.
\<close>

definition handleEncPasswdSubmit :: "builtins \<Rightarrow> enc_input \<Rightarrow> event list" where
  "handleEncPasswdSubmit B i =
     (if alsoSendTelegram i \<and> \<not> telegramAvailable i then [ShowUpgradeModal]
      else if pass i = [] \<or> length (pass i) < 4 then
        [Alert (js ''Please enter a password of at least 4 characters to encrypt your backup.'')]
      else if \<not> chromeAvailable i then
        [Alert (js ''Cookie backup is only available when running as a Chrome extension. This is a preview mode showing the interface.'')]
      else
        (let cookies = filter (cookieFilter (selectedDomainsForBackup i)) (allCookies i)
         in if length cookies > 0 then
              (let text = backup_text B (enhancedFeatures i) (pass i) cookies;
                   filename = enc_filename (sanitize (profileInput i)) (date i) (time i)
               in [Download text filename]
                  @ (if sendToTelegram i then [TelegramPush text filename] else [])
                  @ [BackupSuccessAlert (length cookies)]
                  @ (if enhancedFeatures i then
                       [HistoryAdd \<lparr> entry_type =
                            Some (if selectedDomainsForBackup i \<noteq> None
                                  then js ''selective'' else js ''all''),
                          entry_cookieCount = Some (length cookies),
                          entry_size = Some (length text),
                          entry_filename = Some filename,
                          entry_encrypted = Some True \<rparr>]
                     else []))
            else [Alert (js ''No cookies to backup!'')]))"

text \<open>
  \<open>manualCookieBackup\<close> of the backup-core module. Its inputs are the trimmed profile
  name, the password field, the cookies of \<open>chrome.cookies.getAll\<close>, the time stamp of
  \<open>formatDate\<close>, the error of the download if there is one, and the Telegram check box.
  The message of success starts with the three characters U+00E2, U+0153 and U+2026 that
  the source file holds there, the code units 226, 339 and 8230.
  It encrypts the serialized cookies and downloads and sends the ciphertext itself:
  \<^verbatim>\<open>
    const encryptedData = sjcl.encrypt(password, JSON.stringify(cookies));
    const blob = new Blob([encryptedData], { type: 'application/json' });
    ...
          sendBackupToTelegram(encryptedData, filename);
  \<close>
\<close>

definition manualCookieBackup ::
  "builtins \<Rightarrow> jsstring \<Rightarrow> jsstring \<Rightarrow> cookie list \<Rightarrow> jsstring \<Rightarrow> jsstring option \<Rightarrow> bool
     \<Rightarrow> event list" where
  "manualCookieBackup B profileName password cookies timestamp downloadError alsoTelegram =
     (if password = [] then [Warning (js ''Please enter a password for encryption'')]
      else if length cookies = 0 then [Warning (js ''No cookies found to backup'')]
      else
        (let filename = (if profileName \<noteq> []
                         then js ''cookies-'' @ profileName @ js ''-'' @ timestamp @ js ''.ckz''
                         else js ''cookies-'' @ timestamp @ js ''.ckz'');
             encryptedData = sjcl_encrypt B None password (JSON_stringify B (Arr cookies))
         in Download encryptedData filename #
            (case downloadError of
               Some message \<Rightarrow> [Warning (js ''Download failed: '' @ message)]
             | None \<Rightarrow>
                 [SuccessMessage ([226, 339, 8230] @ js '' Backup saved as '' @ filename)]
                 @ (if alsoTelegram then [TelegramPush encryptedData filename] else [])
                 @ [CoreHistoryAdd (js ''manual'') filename (length cookies)])))"

text \<open>The texts that a run writes to a file or sends to the messaging service.\<close>

fun emitted :: "event list \<Rightarrow> jsstring list" where
  "emitted [] = []"
| "emitted (Download text f # es) = text # emitted es"
| "emitted (TelegramPush text f # es) = text # emitted es"
| "emitted (e # es) = emitted es"

section \<open>The restore consumer\<close>

text \<open>
  The outer \<open>try\<close> block of \<open>handleDecPasswdSubmit\<close>, after the wrapper has been taken
  off: decrypt, decompress, parse, and check the shape of the result.
  \<^verbatim>\<open>
    const decrypted = sjcl.decrypt(pass, encryptedData);
    const decompressed = window.enhancedFeatures ?
      window.enhancedFeatures.decompressData(decrypted) : decrypted;
    cookies = JSON.parse(decompressed);
    if (!Array.isArray(cookies)) {
      throw new Error("Invalid cookie data structure - not an array");
    }
    if (cookies.length > 0) {
      const requiredFields = ['name', 'value', 'domain'];
      const firstCookie = cookies[0];
      for (const field of requiredFields) {
        if (!firstCookie.hasOwnProperty(field)) {
          throw new Error(`Invalid cookie data structure - missing required field: ${field}`);
        }
      }
    }
  \<close>
\<close>

definition missing_field :: "jsstring \<Rightarrow> exn" where
  "missing_field field =
     Error (js ''Invalid cookie data structure - missing required field: '' @ field)"

definition check_first :: "cookie list \<Rightarrow> exn + cookie list" where
  "check_first cookies =
     (case cookies of
        [] \<Rightarrow> Inr cookies
      | firstCookie # _ \<Rightarrow>
          if c_name firstCookie = None then Inl (missing_field (js ''name''))
          else if c_value firstCookie = None then Inl (missing_field (js ''value''))
          else if c_domain firstCookie = None then Inl (missing_field (js ''domain''))
          else Inr cookies)"

definition decode :: "builtins \<Rightarrow> bool \<Rightarrow> jsstring \<Rightarrow> jsstring \<Rightarrow> exn + cookie list" where
  "decode B enhanced pw data =
     (let encryptedData = unwrap B enhanced data
      in case sjcl_decrypt B pw encryptedData of
           Inl e \<Rightarrow> Inl e
         | Inr decrypted \<Rightarrow>
             (let decompressed = (if enhanced then decompressData decrypted else decrypted)
              in case JSON_parse B decompressed of
                   None \<Rightarrow> Inl SyntaxError
                 | Some (Arr cookies) \<Rightarrow> check_first cookies
                 | Some _ \<Rightarrow> Inl (Error (js ''Invalid cookie data structure - not an array''))))"

text \<open>
  The handler of the outer block chooses the alert. An error that is neither of the two
  exceptions of the cipher library is told apart by its message; the messages of the
  SyntaxError and TypeError that the engine raises are the engine's own and are none of
  the two texts compared with. The single quote has the code unit 39.
\<close>

definition alert_for :: "exn \<Rightarrow> jsstring" where
  "alert_for e =
     (case e of
        SjclCorrupt \<Rightarrow> js ''Password incorrect!''
      | SjclInvalid \<Rightarrow> js ''File is not a valid .ckz file!''
      | Error message \<Rightarrow>
          if message = js ''Invalid cookie data structure''
          then js ''The decrypted data doesn'' @ [39] @ js ''t contain valid cookies!''
          else if message = js ''Checksum verification failed''
          then js ''File integrity check failed. The backup may be corrupted.''
          else js ''Unknown error during decryption!''
      | _ \<Rightarrow> js ''Unknown error during decryption!'')"

text \<open>
  The answer of the browser to one \<open>chrome.cookies.set\<close>: \<open>chrome.runtime.lastError\<close>
  with its message, or the result handed to the callback (the cookie that was set, or
  \<open>null\<close>). The browser is a parameter: it answers the call with a given number (the
  calls are counted from 0) and a given argument.
\<close>

datatype set_outcome = LastError jsstring | Returned "cookie option"

type_synonym browser = "nat \<Rightarrow> cookie \<Rightarrow> set_outcome"

text \<open>
  The two warnings of the replay. popup.js declares each of them twice; the later
  declaration is the one a script keeps, and it is the one with the two parameters that
  the replay passes:
  \<^verbatim>\<open>
    function unknownErrWarning(cookie_name, cookie_url) {
      if (cookie_name && cookie_url) {
        addToWarningMessageList(createWarning(
          `Cookie ${cookie_name} for the domain ${cookie_url} could not be restored`))
      }
    }
  \<close>
  and the same for \<open>expirationWarning\<close>, with \<open>has expired\<close> at the end.
\<close>

definition unknownErrWarning :: "jsstring option \<Rightarrow> jsstring \<Rightarrow> event list" where
  "unknownErrWarning cookie_name cookie_url =
     (if truthy_string cookie_name \<and> cookie_url \<noteq> []
      then [Warning (js ''Cookie '' @ toString_opt cookie_name @ js '' for the domain ''
                     @ cookie_url @ js '' could not be restored'')]
      else [])"

definition expirationWarning :: "jsstring option \<Rightarrow> jsstring \<Rightarrow> event list" where
  "expirationWarning cookie_name cookie_url =
     (if truthy_string cookie_name \<and> cookie_url \<noteq> []
      then [Warning (js ''Cookie '' @ toString_opt cookie_name @ js '' for the domain ''
                     @ cookie_url @ js '' has expired'')]
      else [])"

text \<open>
  The alert at the end of a restore. popup.js declares it twice as well, first with one
  parameter and later, in the declaration that the script keeps, with two:
  \<^verbatim>\<open>
    function restoreSuccessAlert(restoredCookies, totalCookies) {
      addToSuccessMessageList(createSuccessAlert(
        `Successfully restored ${restoredCookies.toLocaleString()} cookies out of ${totalCookies.toLocaleString()}`));
    }
  \<close>
  A call with one argument leaves \<open>totalCookies\<close> undefined, and reading
  \<open>toLocaleString\<close> of it raises a TypeError before anything is shown.
\<close>

definition restoreSuccessAlert :: "nat \<Rightarrow> nat option \<Rightarrow> exn + event list" where
  "restoreSuccessAlert restoredCookies totalCookies =
     (case totalCookies of
        None \<Rightarrow> Inl TypeError
      | Some n \<Rightarrow> Inr [RestoreSuccessAlert restoredCookies n])"

text \<open>
  One round of the replay loop, up to the call of the browser.
  \<^verbatim>\<open>
    let url = "http" + (cookie.secure ? "s" : "") + "://" +
      (cookie.domain.startsWith(".") ? cookie.domain.slice(1) : cookie.domain) +
      cookie.path;
  \<close>
  raises a TypeError when the record has no domain.
\<close>

definition replay_url :: "cookie \<Rightarrow> exn + jsstring" where
  "replay_url cookie =
     (case c_domain cookie of
        None \<Rightarrow> Inl TypeError
      | Some d \<Rightarrow>
          Inr (js ''http'' @ (if c_secure cookie = Some True then js ''s'' else [])
               @ js ''://'' @ (if startsWith d (js ''.'') then drop 1 d else d)
               @ toString_opt (c_path cookie)))"

text \<open>\<^verbatim>\<open>cookie.expirationDate && epoch > cookie.expirationDate\<close>: the number 0 is falsy,
  as a missing property is.\<close>

definition expired :: "rat \<Rightarrow> cookie \<Rightarrow> bool" where
  "expired epoch cookie =
     (case c_expirationDate cookie of
        None \<Rightarrow> False
      | Some e \<Rightarrow> e \<noteq> 0 \<and> epoch > e)"

text \<open>
  The record as it is handed to \<open>chrome.cookies.set\<close>:
  \<^verbatim>\<open>
    if (cookie.hostOnly == true) { delete cookie.domain; }
    if (cookie.session == true) { delete cookie.expirationDate; }
    delete cookie.hostOnly;
    delete cookie.session;
    cookie.url = url;
    if (!cookie.sameSite) { cookie.sameSite = 'no_restriction'; }
    if (cookie.secure === undefined) { cookie.secure = url.startsWith('https'); }
    if (cookie.httpOnly === undefined) { cookie.httpOnly = false; }
    if (cookie.path === undefined) { cookie.path = '/'; }
  \<close>
\<close>

definition prepare :: "cookie \<Rightarrow> jsstring \<Rightarrow> cookie" where
  "prepare cookie0 url =
     (let cookie1 = (if c_hostOnly cookie0 = Some True
                     then cookie0\<lparr>c_domain := None\<rparr> else cookie0);
          cookie2 = (if c_session cookie1 = Some True
                     then cookie1\<lparr>c_expirationDate := None\<rparr> else cookie1);
          cookie3 = cookie2\<lparr>c_hostOnly := None, c_session := None\<rparr>;
          cookie4 = cookie3\<lparr>c_url := Some url\<rparr>;
          cookie5 = (if \<not> truthy_string (c_sameSite cookie4)
                     then cookie4\<lparr>c_sameSite := Some (js ''no_restriction'')\<rparr> else cookie4);
          cookie6 = (if c_secure cookie5 = None
                     then cookie5\<lparr>c_secure := Some (startsWith url (js ''https''))\<rparr>
                     else cookie5);
          cookie7 = (if c_httpOnly cookie6 = None
                     then cookie6\<lparr>c_httpOnly := Some False\<rparr> else cookie6)
      in if c_path cookie7 = None then cookie7\<lparr>c_path := Some (js ''/'')\<rparr> else cookie7)"

text \<open>
  The loop \<^verbatim>\<open>for (const cookie of cookies)\<close> of \<open>handleDecPasswdSubmit\<close>. Its arguments
  are the browser, the time \<open>epoch\<close> in seconds, the number of calls of
  \<open>chrome.cookies.set\<close> made so far, the counter \<open>total\<close> (here \<open>ntotal\<close>) and the records still to
  replay. It gives the events of the rounds in order, and at the end the value of
  \<open>total\<close>, or the exception that left the loop.
\<close>

fun replay :: "browser \<Rightarrow> rat \<Rightarrow> nat \<Rightarrow> nat \<Rightarrow> cookie list \<Rightarrow> event list \<times> (exn + nat)" where
  "replay br epoch calls ntotal [] = ([], Inr ntotal)"
| "replay br epoch calls ntotal (cookie # rest) =
     (case replay_url cookie of
        Inl e \<Rightarrow> ([], Inl e)
      | Inr url \<Rightarrow>
          if expired epoch cookie then
            (let (evs, r) = replay br epoch calls ntotal rest
             in (expirationWarning (c_name cookie) url @ evs, r))
          else
            (let details = prepare cookie url
             in case br calls details of
                  LastError message \<Rightarrow>
                    (let (evs, r) = replay br epoch (Suc calls) ntotal rest
                     in (CookieSet details
                           # unknownErrWarning (c_name details)
                               (toString_opt (c_url details) @ js '' - '' @ message)
                           @ evs, r))
                | Returned c \<Rightarrow>
                    if c \<noteq> None then
                      (let (evs, r) = replay br epoch (Suc calls) (Suc ntotal) rest
                       in (CookieSet details # UpdateProgress (Suc ntotal) # evs, r))
                    else
                      (let (evs, r) = replay br epoch (Suc calls) ntotal rest
                       in (CookieSet details # evs, r))))"

text \<open>
  \<open>handleDecPasswdSubmit\<close>: the password of the input field (trimmed), the text of the
  file or of the text area, the flag for \<open>window.enhancedFeatures\<close>, the time and the
  browser. An exception that leaves the loop ends the asynchronous callback: nothing
  after the loop happens, and the exception is recorded as uncaught.
\<close>

definition handleDecPasswdSubmit ::
  "builtins \<Rightarrow> bool \<Rightarrow> jsstring \<Rightarrow> jsstring \<Rightarrow> rat \<Rightarrow> browser \<Rightarrow> event list" where
  "handleDecPasswdSubmit B enhanced pw data epoch br =
     (if pw = [] \<or> length pw < 1 then
        [Alert (js ''Please enter a password to decrypt the backup.'')]
      else case decode B enhanced pw data of
             Inl e \<Rightarrow> [Alert (alert_for e)]
           | Inr cookies \<Rightarrow>
               InitProgress (length cookies) #
               (case replay br epoch 0 0 cookies of
                  (evs, Inl e) \<Rightarrow> evs @ [Uncaught e]
                | (evs, Inr ntotal) \<Rightarrow>
                    (case restoreSuccessAlert ntotal (Some (length cookies)) of
                       Inl e \<Rightarrow> evs @ [Uncaught e]
                     | Inr shown \<Rightarrow> evs @ shown @ [HideProgress])))"

section \<open>The other restore paths\<close>

text \<open>
  The loop of \<open>restoreCookies\<close> in the backup-core module builds a new object for every
  record and counts the calls that succeed and the calls that fail:
  \<^verbatim>\<open>
    const newCookie = {
      url: `http${cookie.secure ? 's' : ''}://${cookie.domain}${cookie.path}`,
      name: cookie.name, value: cookie.value, domain: cookie.domain, path: cookie.path,
      secure: cookie.secure, httpOnly: cookie.httpOnly,
      sameSite: cookie.sameSite || 'lax',
      expirationDate: cookie.expirationDate
    };
    await chrome.cookies.set(newCookie);
    successCount++;
  \<close>
  with \<open>failCount++\<close> and a line on the console in the handler around it. The promise
  of \<open>chrome.cookies.set\<close> is rejected when the browser reports an error.
\<close>

definition core_newCookie :: "cookie \<Rightarrow> cookie" where
  "core_newCookie cookie =
     \<lparr> c_name = c_name cookie, c_value = c_value cookie, c_domain = c_domain cookie,
       c_path = c_path cookie, c_secure = c_secure cookie, c_httpOnly = c_httpOnly cookie,
       c_sameSite = Some (if truthy_string (c_sameSite cookie)
                          then toString_opt (c_sameSite cookie) else js ''lax''),
       c_hostOnly = None, c_session = None,
       c_expirationDate = c_expirationDate cookie, c_storeId = None,
       c_url = Some (js ''http'' @ (if c_secure cookie = Some True then js ''s'' else [])
                     @ js ''://'' @ toString_opt (c_domain cookie)
                     @ toString_opt (c_path cookie)) \<rparr>"

fun core_restore_loop :: "browser \<Rightarrow> nat \<Rightarrow> cookie list \<Rightarrow> event list \<times> nat \<times> nat" where
  "core_restore_loop br calls [] = ([], 0, 0)"
| "core_restore_loop br calls (cookie # rest) =
     (let newCookie = core_newCookie cookie;
          (evs, successCount, failCount) = core_restore_loop br (Suc calls) rest
      in case br calls newCookie of
           LastError message \<Rightarrow>
             (CookieSet newCookie # ConsoleError (c_name cookie) message # evs,
              successCount, Suc failCount)
         | Returned c \<Rightarrow> (CookieSet newCookie # evs, Suc successCount, failCount))"

text \<open>
  \<open>restoreCookies(cookieData, password)\<close>: with a password the text is decrypted as it
  is and parsed, and every failure of the two steps becomes one error; without it the
  text is parsed. \<open>existing\<close> is the list of the browser's cookies when the box
  \<open>clear-existing-cookies\<close> is ticked. The result is the pair of the two counters, or the
  error that the function raises again after it has shown it; the messages that the
  function shows at its end are left out.
\<close>

definition core_parse :: "builtins \<Rightarrow> jsstring \<Rightarrow> jsstring option \<Rightarrow> exn + cookie list" where
  "core_parse B cookieData password =
     (let parsed =
        (if truthy_string password then
           (case sjcl_decrypt B (toString_opt password) (PStr cookieData) of
              Inl e \<Rightarrow> Inl (Error (js ''Invalid password or corrupted backup file''))
            | Inr decryptedData \<Rightarrow>
                (case JSON_parse B decryptedData of
                   None \<Rightarrow> Inl (Error (js ''Invalid password or corrupted backup file''))
                 | Some j \<Rightarrow> Inr j))
         else (case JSON_parse B cookieData of None \<Rightarrow> Inl SyntaxError | Some j \<Rightarrow> Inr j))
      in case parsed of
           Inl e \<Rightarrow> Inl e
         | Inr (Arr cookies) \<Rightarrow> Inr cookies
         | Inr _ \<Rightarrow> Inl (Error (js ''Invalid backup format'')))"

definition core_remove :: "cookie \<Rightarrow> event" where
  "core_remove cookie =
     CookieRemove (js ''http'' @ (if c_secure cookie = Some True then js ''s'' else [])
                   @ js ''://'' @ toString_opt (c_domain cookie) @ toString_opt (c_path cookie))
       (c_name cookie)"

definition restoreCookies ::
  "builtins \<Rightarrow> jsstring \<Rightarrow> jsstring option \<Rightarrow> cookie list option \<Rightarrow> browser
     \<Rightarrow> event list \<times> (exn + nat \<times> nat)" where
  "restoreCookies B cookieData password existing br =
     (case core_parse B cookieData password of
        Inl e \<Rightarrow> ([], Inl e)
      | Inr cookies \<Rightarrow>
          (let removals = (case existing of None \<Rightarrow> [] | Some cs \<Rightarrow> map core_remove cs);
               (evs, successCount, failCount) = core_restore_loop br 0 cookies
           in (removals @ evs, Inr (successCount, failCount))))"

text \<open>
  \<open>restoreUnencryptedCookies\<close> of the popup sends all the records at once and counts
  the answers as they come:
  \<^verbatim>\<open>
    let imported = 0;
    cookies.forEach((cookie) => {
      const url = `http${cookie.secure ? 's' : ''}://${cookie.domain}${cookie.path || '/'}`;
      chrome.cookies.set({
        url: url, name: cookie.name, value: cookie.value, domain: cookie.domain,
        path: cookie.path || '/', secure: cookie.secure || false,
        httpOnly: cookie.httpOnly || false, sameSite: cookie.sameSite || 'no_restriction'
      }, () => {
        imported++;
        if (imported === cookies.length) {
          restoreSuccessAlert(imported);
        }
      });
    });
  \<close>
\<close>

definition plain_details :: "cookie \<Rightarrow> cookie" where
  "plain_details cookie =
     (let p = (if truthy_string (c_path cookie) then toString_opt (c_path cookie) else js ''/'')
      in \<lparr> c_name = c_name cookie, c_value = c_value cookie, c_domain = c_domain cookie,
           c_path = Some p,
           c_secure = Some (c_secure cookie = Some True),
           c_httpOnly = Some (c_httpOnly cookie = Some True),
           c_sameSite = Some (if truthy_string (c_sameSite cookie)
                              then toString_opt (c_sameSite cookie) else js ''no_restriction''),
           c_hostOnly = None, c_session = None, c_expirationDate = None, c_storeId = None,
           c_url = Some (js ''http'' @ (if c_secure cookie = Some True then js ''s'' else [])
                         @ js ''://'' @ toString_opt (c_domain cookie) @ p) \<rparr>)"

text \<open>The callbacks, one for every answer of the browser, in the order in which the
  answers come. A callback takes no argument and does not look at
  \<open>chrome.runtime.lastError\<close>. An exception of \<open>restoreSuccessAlert\<close> ends the
  callback that made the call, and only that one.\<close>

fun plain_callbacks :: "nat \<Rightarrow> nat \<Rightarrow> set_outcome list \<Rightarrow> event list" where
  "plain_callbacks n imported [] = []"
| "plain_callbacks n imported (answer # answers) =
     (if Suc imported = n
      then (case restoreSuccessAlert (Suc imported) None of
              Inl e \<Rightarrow> [Uncaught e]
            | Inr shown \<Rightarrow> shown)
      else [])
     @ plain_callbacks n (Suc imported) answers"

definition restoreUnencryptedCookies :: "bool \<Rightarrow> cookie list \<Rightarrow> browser \<Rightarrow> event list" where
  "restoreUnencryptedCookies chrome_there cookies br =
     (if chrome_there then
        (let calls = map plain_details cookies
         in map CookieSet calls
            @ plain_callbacks (length cookies) 0 (map (\<lambda>(k, d). br k d) (enumerate 0 calls)))
      else [Alert (js ''Cookie restoration is only available when running as a Chrome extension.'')])"

text \<open>Projections of a list of events.\<close>

fun set_calls :: "event list \<Rightarrow> cookie list" where
  "set_calls [] = []"
| "set_calls (CookieSet c # es) = c # set_calls es"
| "set_calls (e # es) = set_calls es"

fun warnings :: "event list \<Rightarrow> jsstring list" where
  "warnings [] = []"
| "warnings (Warning w # es) = w # warnings es"
| "warnings (e # es) = warnings es"

fun success_alerts :: "event list \<Rightarrow> (nat \<times> nat) list" where
  "success_alerts [] = []"
| "success_alerts (RestoreSuccessAlert n t # es) = (n, t) # success_alerts es"
| "success_alerts (e # es) = success_alerts es"

fun uncaught :: "event list \<Rightarrow> exn list" where
  "uncaught [] = []"
| "uncaught (Uncaught e # es) = e # uncaught es"
| "uncaught (e # es) = uncaught es"

section \<open>Auxiliary notions for the statements\<close>






section \<open>Example data\<close>

definition demo_entry :: backup_entry where
  "demo_entry = \<lparr> entry_type = Some (js ''all''), entry_cookieCount = Some 3,
     entry_size = Some 120, entry_filename = Some (js ''cookies.ckz''),
     entry_encrypted = Some True \<rparr>"

definition demo_core_entry :: core_history_entry where
  "demo_core_entry = \<lparr> ch_timestamp = js ''a'', ch_type = js ''manual'',
     ch_filename = js ''old.ckz'', ch_cookieCount = 1 \<rparr>"

text \<open>A cookie as \<open>chrome.cookies.getAll\<close> gives it, and variants of it.\<close>

definition cookie_sid :: cookie where
  "cookie_sid = \<lparr> c_name = Some (js ''sid''), c_value = Some (js ''1''),
     c_domain = Some (js ''.x.org''), c_path = Some (js ''/''), c_secure = Some True,
     c_httpOnly = Some False, c_sameSite = Some (js ''lax''), c_hostOnly = Some False,
     c_session = Some False, c_expirationDate = Some 2000, c_storeId = Some (js ''0''),
     c_url = None \<rparr>"

definition cookie_old :: cookie where
  "cookie_old = cookie_sid \<lparr> c_name := Some (js ''old''), c_expirationDate := Some 500 \<rparr>"

definition cookie_zero :: cookie where
  "cookie_zero = cookie_sid \<lparr> c_name := Some (js ''zero''), c_expirationDate := Some 0 \<rparr>"

definition cookie_noname :: cookie where
  "cookie_noname = cookie_sid \<lparr> c_name := Some [], c_expirationDate := Some 500 \<rparr>"

definition cookie_host :: cookie where
  "cookie_host = \<lparr> c_name = Some (js ''h''), c_value = Some (js ''2''),
     c_domain = Some (js ''x.org''), c_path = None, c_secure = None,
     c_httpOnly = None, c_sameSite = None, c_hostOnly = Some True,
     c_session = Some True, c_expirationDate = None, c_storeId = None,
     c_url = None \<rparr>"

definition cookie_nodomain :: cookie where
  "cookie_nodomain = cookie_sid \<lparr> c_domain := None \<rparr>"

definition cookie_nodomain_old :: cookie where
  "cookie_nodomain_old = cookie_old \<lparr> c_domain := None \<rparr>"

definition cookie_anon :: cookie where
  "cookie_anon = cookie_sid \<lparr> c_name := Some [] \<rparr>"

text \<open>A browser that sets every cookie, one that rejects the second call, and one that
  rejects every call.\<close>

definition browser_ok :: browser where
  "browser_ok k details = Returned (Some details)"


definition browser_rejects :: browser where
  "browser_rejects k details = LastError (js ''Invalid domain'')"

text \<open>
  Stand-ins for the built-in functions in the examples. The cipher moves every code unit
  down by two and puts the password in front; it has the law of the real one, decryption
  with the password of the encryption gives the plain text back, and it tells a wrong
  password (\<open>corrupt\<close>) from a text that is no ciphertext (\<open>invalid\<close>). The JSON functions
  are given by a table of the values and texts of the run.
\<close>

definition toy_encrypt :: "nat option \<Rightarrow> jsstring \<Rightarrow> jsstring \<Rightarrow> jsstring" where
  "toy_encrypt ks pw plain = js ''sjcl:'' @ pw @ js '':'' @ map (\<lambda>c. c - 2) plain"

definition toy_decrypt :: "jsstring \<Rightarrow> jsprim \<Rightarrow> exn + jsstring" where
  "toy_decrypt pw x =
     (case x of
        PStr ct \<Rightarrow>
          if startsWith ct (js ''sjcl:'' @ pw @ js '':'')
          then Inr (map (\<lambda>c. c + 2) (drop (length (js ''sjcl:'' @ pw @ js '':'')) ct))
          else if startsWith ct (js ''sjcl:'') then Inl SjclCorrupt
          else Inl SjclInvalid
      | _ \<Rightarrow> Inl TypeError)"

definition table_builtins :: "(json \<times> jsstring) list \<Rightarrow> builtins" where
  "table_builtins tbl =
     \<lparr> JSON_stringify = (\<lambda>v. case map_of tbl v of Some t \<Rightarrow> t | None \<Rightarrow> []),
       JSON_parse = (\<lambda>t. map_of (map (\<lambda>(v, t). (t, v)) tbl) t),
       sjcl_encrypt = toy_encrypt,
       sjcl_decrypt = toy_decrypt \<rparr>"

text \<open>The snapshot of one host-only session cookie, its ciphertext under the password
  \<open>pass\<close>, and the wrapper around it, each with its JSON text.\<close>

definition text_host :: jsstring where
  \<open>text_host = js ''[{"name":"h","value":"2","domain":"x.org","hostOnly":true,"session":true}]''\<close>

definition cipher_host :: jsstring where
  \<open>cipher_host = js ''sjcl:pass:Yy l_kc 8 f * t_jsc 8 0 * bmk_gl 8 v,mpe * fmqrMljw 8rpsc* qcqqgml 8rpsc{[''\<close>

definition text_wrapped_host :: jsstring where
  \<open>text_wrapped_host = js ''{"v":1,"payload":"sjcl:pass:Yy l_kc 8 f * t_jsc 8 0 * bmk_gl 8 v,mpe * fmqrMljw 8rpsc* qcqqgml 8rpsc{[","checksum":"-2d5148e9"}''\<close>

definition demo_host :: builtins where
  "demo_host = table_builtins
     [(Arr [cookie_host], text_host),
      (Obj [(js ''v'', PNum 1), (js ''payload'', PStr cipher_host),
            (js ''checksum'', PStr (js ''-2d5148e9''))], text_wrapped_host)]"

text \<open>The same file with a checksum that is not the checksum of the payload, and a file
  in the shape that has \<open>version\<close> for the name of the first property.\<close>

definition text_wrong_checksum :: jsstring where
  \<open>text_wrong_checksum = js ''{"v":1,"payload":"sjcl:pass:Yy l_kc 8 f * t_jsc 8 0 * bmk_gl 8 v,mpe * fmqrMljw 8rpsc* qcqqgml 8rpsc{[","checksum":"0"}''\<close>

definition text_version :: jsstring where
  \<open>text_version = js ''{"version":1,"payload":"sjcl:pass:Yy l_kc 8 f * t_jsc 8 0 * bmk_gl 8 v,mpe * fmqrMljw 8rpsc* qcqqgml 8rpsc{[","checksum":"-2d5148e9"}''\<close>

definition demo_files :: builtins where
  "demo_files = table_builtins
     [(Arr [cookie_host], text_host),
      (Obj [(js ''v'', PNum 1), (js ''payload'', PStr cipher_host),
            (js ''checksum'', PStr (js ''0''))], text_wrong_checksum),
      (Obj [(js ''version'', PNum 1), (js ''payload'', PStr cipher_host),
            (js ''checksum'', PStr (js ''-2d5148e9''))], text_version)]"

text \<open>Snapshots of two and of three records, with their JSON texts.\<close>

definition text_two :: jsstring where
  \<open>text_two = js ''[{"name":"old","value":"1","domain":".x.org","path":"/","secure":true,"httpOnly":false,"sameSite":"lax","hostOnly":false,"session":false,"expirationDate":500,"storeId":"0"},{"name":"h","value":"2","domain":"x.org","hostOnly":true,"session":true}]''\<close>

definition text_three :: jsstring where
  \<open>text_three = js ''[{"name":"sid","value":"1","domain":".x.org","path":"/","secure":true,"httpOnly":false,"sameSite":"lax","hostOnly":false,"session":false,"expirationDate":2000,"storeId":"0"},{"name":"h","value":"2","domain":"x.org","hostOnly":true,"session":true},{"name":"sid","value":"1","domain":".x.org","path":"/","secure":true,"httpOnly":false,"sameSite":"lax","hostOnly":false,"session":false,"expirationDate":2000,"storeId":"0"}]''\<close>

definition demo_snapshots :: builtins where
  "demo_snapshots = table_builtins
     [(Arr [cookie_old, cookie_host], text_two),
      (Arr [cookie_sid, cookie_host, cookie_sid], text_three)]"

text \<open>What \<open>handleEncPasswdSubmit\<close> reads in the example: the password \<open>pass\<close>, the one
  cookie, a profile name, and both the download and the push to Telegram.\<close>

definition demo_input :: enc_input where
  "demo_input = \<lparr> alsoSendTelegram = False, telegramAvailable = False, pass = js ''pass'',
     chromeAvailable = True, enhancedFeatures = True, selectedDomainsForBackup = None,
     allCookies = [cookie_host], profileInput = js ''work'', date = js ''01-02-2025'',
     time = js ''10-00-00'', sendToTelegram = True \<rparr>"




section \<open>Properties of the checksums\<close>

lemma js_shl_5_sint: "js_shl (sint (w :: 32 word)) 5 = sint (push_bit 5 w)"
  by (simp add: js_shl_def)

lemma js_and_self: "js_and x x = sint (word_of_int x :: 32 word)"
  by (simp add: js_and_def)

lemma word_of_int_step:
  "(word_of_int (sint (a :: 32 word) - sint (w :: 32 word) + uint (c :: 16 word)) :: 32 word)
     = a - w + ucast c"
proof -
  have a: "(word_of_int (sint a) :: 32 word) = a" by simp
  have w: "(word_of_int (sint w) :: 32 word) = w" by simp
  have c: "(word_of_int (uint c) :: 32 word) = ucast c" by (simp only: ucast_eq)
  have "(word_of_int (sint a - sint w + uint c) :: 32 word)
      = word_of_int (sint a) - word_of_int (sint w) + word_of_int (uint c)"
    by (simp only: wi_hom_syms)
  then show ?thesis
    by (simp only: a w c)
qed

lemma checksum_step:
  "js_and (js_shl (sint w) 5 - sint w + uint c) (js_shl (sint w) 5 - sint w + uint c)
     = sint (push_bit 5 (w :: 32 word) - w + ucast (c :: 16 word))"
  by (simp only: js_shl_5_sint js_and_self word_of_int_step)

lemma calculateChecksum_loop_word:
  "calculateChecksum_loop (sint w) s
     = sint (foldl (\<lambda>h c. push_bit 5 h - h + ucast c) (w :: 32 word) s)"
proof (induction s arbitrary: w)
  case Nil
  show ?case by simp
next
  case (Cons c s)
  show ?case
    by (simp only: calculateChecksum_loop.simps Let_def checksum_step Cons.IH foldl_Cons)
qed

lemma generateChecksum_loop_word:
  "generateChecksum_loop (sint w) s
     = sint (foldl (\<lambda>h c. push_bit 5 h - h + ucast c) (w :: 32 word) s)"
proof (induction s arbitrary: w)
  case Nil
  show ?case by simp
next
  case (Cons c s)
  show ?case
    by (simp only: generateChecksum_loop.simps Let_def checksum_step Cons.IH foldl_Cons)
qed

text \<open>
  C9. The checksum of the backup envelopes (\<open>calculateChecksum\<close>) and the checksum of the
  settings files (\<open>generateChecksum\<close>) are the same function of the input string, and
  that function is the rolling hash \<open>h := (h << 5) - h + c\<close> over the UTF-16 code units,
  kept in a signed 32-bit integer and written in base 16, with a minus sign when it is
  negative.
\<close>

theorem checksums_agree:
  "calculateChecksum s = generateChecksum s
   \<and> generateChecksum s = checksum_spec s
   \<and> checksum_spec s = toString16 (sint (rolling_hash s))
   \<and> - (2 ^ 31) \<le> sint (rolling_hash s) \<and> sint (rolling_hash s) < 2 ^ 31"
proof -
  have z: "sint (0 :: 32 word) = 0" by simp
  have c: "calculateChecksum_loop 0 s = sint (rolling_hash s)"
    using calculateChecksum_loop_word [of 0 s] by (simp only: z rolling_hash_def)
  have g: "generateChecksum_loop 0 s = sint (rolling_hash s)"
    using generateChecksum_loop_word [of 0 s] by (simp only: z rolling_hash_def)
  have lo: "- (2 ^ 31) \<le> sint (rolling_hash s)"
    using sint_ge [of "rolling_hash s"] by simp
  have hi: "sint (rolling_hash s) < 2 ^ 31"
    using sint_lt [of "rolling_hash s"] by simp
  show ?thesis
    using lo hi by (simp only: calculateChecksum_def generateChecksum_def checksum_spec_def c g)
qed

section \<open>Properties of the ledger\<close>

lemma take_50_full:
  assumes "length h = 50"
  shows "take 50 (x # h) = x # butlast h"
proof -
  have "take 50 (x # h) = x # take 49 h"
    by (simp add: take_Cons')
  moreover have "take 49 h = butlast h"
    using assms by (simp add: butlast_conv_take)
  ultimately show ?thesis by simp
qed

lemma addToBackupHistory_take:
  "addToBackupHistory now stamp e h = take 50 (historyEntry now stamp e # h)"
  by (simp add: addToBackupHistory_def Let_def)

lemma core_addToBackupHistory_take:
  "core_addToBackupHistory stamp t f n stored
     = take 50 (\<lparr> ch_timestamp = stamp, ch_type = t, ch_filename = f, ch_cookieCount = n \<rparr>
                 # (case stored of None \<Rightarrow> [] | Some h \<Rightarrow> h))"
  by (simp add: core_addToBackupHistory_def Let_def)

text \<open>
  C8. The ledger is bounded at 50 entries, most recent first. Every append puts the new
  entry in front and keeps the first 50 entries of the result, so the ledger never has more
  than 50 entries after an append; appending to a ledger of exactly 50 entries gives the
  new entry followed by the old ones without the last (oldest) one. Both implementations
  of the append, in the enhanced-features module and in the backup-core module (which
  starts from the stored list, or from the empty list when nothing is stored), do this.
\<close>

theorem history_bounded:
  "addToBackupHistory now stamp e h = take 50 (historyEntry now stamp e # h)
   \<and> length (addToBackupHistory now stamp e h) = min 50 (Suc (length h))
   \<and> hd (addToBackupHistory now stamp e h) = historyEntry now stamp e
   \<and> (length h = 50 \<longrightarrow>
        addToBackupHistory now stamp e h = historyEntry now stamp e # butlast h)
   \<and> core_addToBackupHistory cstamp t f n stored
        = take 50 (\<lparr> ch_timestamp = cstamp, ch_type = t, ch_filename = f, ch_cookieCount = n \<rparr>
                    # (case stored of None \<Rightarrow> [] | Some h' \<Rightarrow> h'))
   \<and> length (core_addToBackupHistory cstamp t f n stored)
        = min 50 (Suc (length (case stored of None \<Rightarrow> [] | Some h' \<Rightarrow> h')))
   \<and> length (core_addToBackupHistory cstamp t f n stored) \<le> 50
   \<and> hd (core_addToBackupHistory cstamp t f n stored)
        = \<lparr> ch_timestamp = cstamp, ch_type = t, ch_filename = f, ch_cookieCount = n \<rparr>
   \<and> (length ch = 50 \<longrightarrow>
        core_addToBackupHistory cstamp t f n (Some ch)
          = \<lparr> ch_timestamp = cstamp, ch_type = t, ch_filename = f, ch_cookieCount = n \<rparr>
              # butlast ch)"
proof -
  have a: "length (addToBackupHistory now stamp e h) = min 50 (Suc (length h))"
    by (simp add: addToBackupHistory_take)
  have b: "hd (addToBackupHistory now stamp e h) = historyEntry now stamp e"
    by (simp add: addToBackupHistory_take take_Cons')
  have c: "length h = 50 \<longrightarrow>
        addToBackupHistory now stamp e h = historyEntry now stamp e # butlast h"
    using take_50_full [of h] by (simp only: addToBackupHistory_take) blast
  have d: "length (core_addToBackupHistory cstamp t f n stored) \<le> 50"
    by (simp add: core_addToBackupHistory_take)
  have e: "hd (core_addToBackupHistory cstamp t f n stored)
        = \<lparr> ch_timestamp = cstamp, ch_type = t, ch_filename = f, ch_cookieCount = n \<rparr>"
    by (simp add: core_addToBackupHistory_take take_Cons')
  have f: "length ch = 50 \<longrightarrow>
        core_addToBackupHistory cstamp t f n (Some ch)
          = \<lparr> ch_timestamp = cstamp, ch_type = t, ch_filename = f, ch_cookieCount = n \<rparr>
              # butlast ch"
    using take_50_full [of ch] by (simp add: core_addToBackupHistory_take)
  have g: "length (core_addToBackupHistory cstamp t f n stored)
        = min 50 (Suc (length (case stored of None \<Rightarrow> [] | Some h' \<Rightarrow> h')))"
    by (simp add: core_addToBackupHistory_take)
  show ?thesis
    using a b c d e f g addToBackupHistory_take [of now stamp e h]
      core_addToBackupHistory_take [of cstamp t f n stored]
    by blast
qed

theorem history_bounded_witness:
  "length (replicate 50 (historyEntry 1 (js ''a'') demo_entry)) = 50
   \<and> length (addToBackupHistory 2 (js ''b'') demo_entry
         (replicate 50 (historyEntry 1 (js ''a'') demo_entry))) = 50
   \<and> addToBackupHistory 2 (js ''b'') demo_entry
         (replicate 50 (historyEntry 1 (js ''a'') demo_entry))
       = historyEntry 2 (js ''b'') demo_entry # replicate 49 (historyEntry 1 (js ''a'') demo_entry)
   \<and> length (replicate 50 demo_core_entry) = 50
   \<and> core_addToBackupHistory (js ''b'') (js ''manual'') (js ''f.ckz'') 3
         (Some (replicate 50 demo_core_entry))
       = \<lparr> ch_timestamp = js ''b'', ch_type = js ''manual'', ch_filename = js ''f.ckz'',
            ch_cookieCount = 3 \<rparr> # replicate 49 demo_core_entry"
  using history_bounded [of 2 "js ''b''" demo_entry
      "replicate 50 (historyEntry 1 (js ''a'') demo_entry)"
      "js ''b''" "js ''manual''" "js ''f.ckz''" 3 None "replicate 50 demo_core_entry"]
  by (simp add: butlast_conv_take)

section \<open>Properties of the replay\<close>

lemma set_calls_append: "set_calls (xs @ ys) = set_calls xs @ set_calls ys"
  by (induction xs rule: set_calls.induct) simp_all

lemma warnings_append: "warnings (xs @ ys) = warnings xs @ warnings ys"
  by (induction xs rule: warnings.induct) simp_all

lemma set_calls_expirationWarning: "set_calls (expirationWarning n u) = []"
  by (simp add: expirationWarning_def)

lemma set_calls_unknownErrWarning: "set_calls (unknownErrWarning n u) = []"
  by (simp add: unknownErrWarning_def)

lemma prepare_name: "c_name (prepare c u) = c_name c"
  by (simp add: prepare_def Let_def)

lemma prepare_url: "c_url (prepare c u) = Some u"
  by (simp add: prepare_def Let_def)

lemma prepare_domain:
  "c_domain (prepare c u) = (if c_hostOnly c = Some True then None else c_domain c)"
  by (simp add: prepare_def Let_def)

lemma prepare_expirationDate:
  "c_expirationDate (prepare c u) = (if c_session c = Some True then None else c_expirationDate c)"
  by (simp add: prepare_def Let_def)

lemma prepare_hints: "c_hostOnly (prepare c u) = None \<and> c_session (prepare c u) = None"
  by (simp add: prepare_def Let_def)

lemma prepare_sameSite:
  "c_sameSite (prepare c u)
       = (if truthy_string (c_sameSite c) then c_sameSite c else Some (js ''no_restriction''))"
  by (simp add: prepare_def Let_def)

lemma prepare_secure:
  "c_secure (prepare c u)
       = (case c_secure c of None \<Rightarrow> Some (startsWith u (js ''https'')) | Some b \<Rightarrow> Some b)"
  by (cases "c_secure c") (simp_all add: prepare_def Let_def)

lemma prepare_httpOnly:
  "c_httpOnly (prepare c u) = (case c_httpOnly c of None \<Rightarrow> Some False | Some b \<Rightarrow> Some b)"
  by (cases "c_httpOnly c") (simp_all add: prepare_def Let_def)

lemma prepare_path:
  "c_path (prepare c u) = (case c_path c of None \<Rightarrow> Some (js ''/'') | Some p \<Rightarrow> Some p)"
  by (cases "c_path c") (simp_all add: prepare_def Let_def)

lemma prepare_value: "c_value (prepare c u) = c_value c"
  by (simp add: prepare_def Let_def)


lemma replay_Cons_expired:
  assumes "replay_url c = Inr u" and "expired epoch c"
  shows "replay br epoch k t (c # cs)
           = (expirationWarning (c_name c) u @ fst (replay br epoch k t cs),
              snd (replay br epoch k t cs))"
  using assms by (simp add: case_prod_beta)

lemma replay_Cons_error:
  assumes "replay_url c = Inr u" and "\<not> expired epoch c"
    and "br k (prepare c u) = LastError m"
  shows "replay br epoch k t (c # cs)
           = (CookieSet (prepare c u) # unknownErrWarning (c_name c) (u @ js '' - '' @ m)
                @ fst (replay br epoch (Suc k) t cs),
              snd (replay br epoch (Suc k) t cs))"
  using assms by (simp add: case_prod_beta Let_def prepare_name prepare_url toString_opt_def)

lemma replay_Cons_null:
  assumes "replay_url c = Inr u" and "\<not> expired epoch c"
    and "br k (prepare c u) = Returned None"
  shows "replay br epoch k t (c # cs)
           = (CookieSet (prepare c u) # fst (replay br epoch (Suc k) t cs),
              snd (replay br epoch (Suc k) t cs))"
  using assms by (simp add: case_prod_beta Let_def)

lemma replay_Cons_ok:
  assumes "replay_url c = Inr u" and "\<not> expired epoch c"
    and "br k (prepare c u) = Returned (Some x)"
  shows "replay br epoch k t (c # cs)
           = (CookieSet (prepare c u) # UpdateProgress (Suc t)
                # fst (replay br epoch (Suc k) (Suc t) cs),
              snd (replay br epoch (Suc k) (Suc t) cs))"
  using assms by (simp add: case_prod_beta Let_def)















section \<open>The examples evaluated\<close>

lemmas cookie_defs = cookie_old_def cookie_sid_def cookie_host_def cookie_zero_def
  cookie_noname_def cookie_anon_def cookie_nodomain_def cookie_nodomain_old_def

lemmas replay_defs = replay_url_def expired_def prepare_def Let_def expirationWarning_def
  unknownErrWarning_def truthy_string_def toString_opt_def startsWith_def

lemma toy_cipher_law: "toy_decrypt pw (PStr (toy_encrypt ks pw x)) = Inr x"
  by (simp add: toy_decrypt_def toy_encrypt_def startsWith_def comp_def)

lemma table_parse_miss:
  assumes "t \<notin> snd ` set tbl"
  shows "JSON_parse (table_builtins tbl) t = None"
proof -
  have "t \<notin> fst ` set (map (\<lambda>(v, t). (t, v)) tbl)"
    using assms by (auto simp: image_iff)
  then show ?thesis
    by (simp add: table_builtins_def map_of_eq_None_iff)
qed

lemma toy_text_not_two: "toy_encrypt ks (js ''pass'') x \<noteq> text_two"
  by (simp add: toy_encrypt_def text_two_def js_def)

lemma toy_text_not_three: "toy_encrypt ks (js ''pass'') x \<noteq> text_three"
  by (simp add: toy_encrypt_def text_three_def js_def)

lemma unwrap_bare_demo:
  "unwrap demo_snapshots enhanced (toy_encrypt ks (js ''pass'') x)
     = PStr (toy_encrypt ks (js ''pass'') x)"
proof -
  have "JSON_parse demo_snapshots (toy_encrypt ks (js ''pass'') x) = None"
    unfolding demo_snapshots_def
    by (rule table_parse_miss) (simp add: toy_text_not_two toy_text_not_three)
  then show ?thesis
    by (simp add: unwrap_def unwrap_try_def)
qed

lemma parse_two: "JSON_parse demo_snapshots text_two = Some (Arr [cookie_old, cookie_host])"
  by (simp add: demo_snapshots_def table_builtins_def)



lemma decrypt_demo:
  "sjcl_decrypt demo_snapshots pw (PStr (toy_encrypt ks pw x)) = Inr x"
  by (simp add: demo_snapshots_def table_builtins_def toy_cipher_law)

lemma decode_two:
  "decode demo_snapshots True (js ''pass'') (toy_encrypt None (js ''pass'') text_two)
     = Inr [cookie_old, cookie_host]"
  by (simp add: decode_def unwrap_bare_demo decrypt_demo decompressData_def parse_two
      check_first_def cookie_defs)










lemma url_old: "replay_url cookie_old = Inr (js ''https://x.org/'')"
  by (simp add: cookie_defs replay_defs js_def)


lemma url_host: "replay_url cookie_host = Inr (js ''http://x.orgundefined'')"
  by (simp add: cookie_defs replay_defs js_def)

lemma prepare_host:
  "prepare cookie_host (js ''http://x.orgundefined'')
     = \<lparr> c_name = Some (js ''h''), c_value = Some (js ''2''), c_domain = None,
         c_path = Some (js ''/''), c_secure = Some False, c_httpOnly = Some False,
         c_sameSite = Some (js ''no_restriction''), c_hostOnly = None, c_session = None,
         c_expirationDate = None, c_storeId = None,
         c_url = Some (js ''http://x.orgundefined'') \<rparr>"
  by (simp add: cookie_defs replay_defs js_def)

lemma prepare_sid:
  "prepare cookie_sid (js ''https://x.org/'')
     = cookie_sid \<lparr> c_hostOnly := None, c_session := None,
         c_url := Some (js ''https://x.org/'') \<rparr>"
  by (simp add: cookie_defs replay_defs js_def)


section \<open>The claims about the replay\<close>




lemma set_calls_replay_subset:
  "\<forall>d\<in>set (set_calls (fst (replay br epoch k t cs))).
      \<exists>c\<in>set cs. \<exists>u. replay_url c = Inr u \<and> d = prepare c u"
proof (induction cs arbitrary: k t)
  case Nil
  show ?case by simp
next
  case (Cons c cs)
  show ?case
  proof (cases "replay_url c")
    case (Inl e)
    then show ?thesis by simp
  next
    case (Inr u)
    show ?thesis
    proof (cases "expired epoch c")
      case True
      show ?thesis
        using Cons.IH [of k t]
        by (simp only: replay_Cons_expired [OF Inr True] fst_conv set_calls_append
            set_calls_expirationWarning append_Nil) auto
    next
      case False
      show ?thesis
      proof (cases "br k (prepare c u)")
        case (LastError m)
        show ?thesis
          using Cons.IH [of "Suc k" t] Inr
          by (simp only: replay_Cons_error [where br = br and k = k and c = c and u = u
                and m = m, OF Inr False LastError] fst_conv set_calls.simps set_calls_append
              set_calls_unknownErrWarning append_Nil) auto
      next
        case (Returned x)
        show ?thesis
        proof (cases x)
          case None
          have a: "br k (prepare c u) = Returned None" using Returned None by simp
          show ?thesis
            using Cons.IH [of "Suc k" t] Inr
            by (simp only: replay_Cons_null [where br = br and k = k and c = c and u = u,
                  OF Inr False a] fst_conv set_calls.simps) auto
        next
          case (Some y)
          have a: "br k (prepare c u) = Returned (Some y)" using Returned Some by simp
          show ?thesis
            using Cons.IH [of "Suc k" "Suc t"] Inr
            by (simp only: replay_Cons_ok [where br = br and k = k and c = c and u = u
                  and x = y, OF Inr False a] fst_conv set_calls.simps) auto
        qed
      qed
    qed
  qed
qed

lemma set_calls_handleDecPasswdSubmit:
  assumes "decode B enhanced pw data = Inr cookies"
  shows "set (set_calls (handleDecPasswdSubmit B enhanced pw data epoch br))
           \<subseteq> set (set_calls (fst (replay br epoch 0 0 cookies)))"
proof (cases "pw = []")
  case True
  then show ?thesis by (simp add: handleDecPasswdSubmit_def)
next
  case False
  obtain evs r where r: "replay br epoch 0 0 cookies = (evs, r)"
    by (cases "replay br epoch 0 0 cookies")
  have len: "\<not> length pw < 1" using False by (cases pw) simp_all
  show ?thesis
    using False len assms r
    by (cases r) (simp_all add: handleDecPasswdSubmit_def restoreSuccessAlert_def set_calls_append)
qed






section \<open>The claim about the prepared record\<close>

text \<open>
  C6, as amended. On the restore path of \<open>handleDecPasswdSubmit\<close> every record is
  prepared before it is handed to \<open>chrome.cookies.set\<close>: the domain is left out exactly
  when \<open>hostOnly\<close> is true, the expiration date is left out exactly when \<open>session\<close> is
  true (and is the record's own otherwise), the two hints themselves are removed, and the
  missing fields get their defaults, \<open>sameSite\<close> the value \<open>no_restriction\<close>, \<open>secure\<close>
  whether the URL starts with \<open>https\<close>, \<open>httpOnly\<close> the value false and \<open>path\<close> the
  value \<open>/\<close>. Every call that this path makes has an argument prepared in this way.
\<close>

theorem prepared_before_set:
  "(c_hostOnly c = Some True \<longrightarrow> c_domain (prepare c u) = None)
   \<and> (c_hostOnly c \<noteq> Some True \<longrightarrow> c_domain (prepare c u) = c_domain c)
   \<and> (c_session c = Some True \<longrightarrow> c_expirationDate (prepare c u) = None)
   \<and> (c_session c \<noteq> Some True \<longrightarrow> c_expirationDate (prepare c u) = c_expirationDate c)
   \<and> c_hostOnly (prepare c u) = None \<and> c_session (prepare c u) = None
   \<and> c_sameSite (prepare c u)
       = (if truthy_string (c_sameSite c) then c_sameSite c else Some (js ''no_restriction''))
   \<and> c_secure (prepare c u)
       = (case c_secure c of None \<Rightarrow> Some (startsWith u (js ''https'')) | Some b \<Rightarrow> Some b)
   \<and> c_httpOnly (prepare c u)
       = (case c_httpOnly c of None \<Rightarrow> Some False | Some b \<Rightarrow> Some b)
   \<and> c_path (prepare c u) = (case c_path c of None \<Rightarrow> Some (js ''/'') | Some p \<Rightarrow> Some p)
   \<and> c_url (prepare c u) = Some u
   \<and> c_name (prepare c u) = c_name c \<and> c_value (prepare c u) = c_value c
   \<and> (decode B enhanced pw data = Inr cookies \<longrightarrow>
        (\<forall>d\<in>set (set_calls (handleDecPasswdSubmit B enhanced pw data epoch br)).
           \<exists>c'\<in>set cookies. \<exists>u'. replay_url c' = Inr u' \<and> d = prepare c' u'))"
proof -
  have fields: "(c_hostOnly c = Some True \<longrightarrow> c_domain (prepare c u) = None)
   \<and> (c_hostOnly c \<noteq> Some True \<longrightarrow> c_domain (prepare c u) = c_domain c)
   \<and> (c_session c = Some True \<longrightarrow> c_expirationDate (prepare c u) = None)
   \<and> (c_session c \<noteq> Some True \<longrightarrow> c_expirationDate (prepare c u) = c_expirationDate c)
   \<and> c_hostOnly (prepare c u) = None \<and> c_session (prepare c u) = None
   \<and> c_sameSite (prepare c u)
       = (if truthy_string (c_sameSite c) then c_sameSite c else Some (js ''no_restriction''))
   \<and> c_secure (prepare c u)
       = (case c_secure c of None \<Rightarrow> Some (startsWith u (js ''https'')) | Some b \<Rightarrow> Some b)
   \<and> c_httpOnly (prepare c u)
       = (case c_httpOnly c of None \<Rightarrow> Some False | Some b \<Rightarrow> Some b)
   \<and> c_path (prepare c u) = (case c_path c of None \<Rightarrow> Some (js ''/'') | Some p \<Rightarrow> Some p)
   \<and> c_url (prepare c u) = Some u
   \<and> c_name (prepare c u) = c_name c \<and> c_value (prepare c u) = c_value c"
    by (simp only: prepare_domain prepare_expirationDate prepare_hints prepare_sameSite
        prepare_secure prepare_httpOnly prepare_path prepare_value prepare_name prepare_url)
       simp
  have path: "decode B enhanced pw data = Inr cookies \<longrightarrow>
        (\<forall>d\<in>set (set_calls (handleDecPasswdSubmit B enhanced pw data epoch br)).
           \<exists>c'\<in>set cookies. \<exists>u'. replay_url c' = Inr u' \<and> d = prepare c' u')"
  proof
    assume dec: "decode B enhanced pw data = Inr cookies"
    show "\<forall>d\<in>set (set_calls (handleDecPasswdSubmit B enhanced pw data epoch br)).
           \<exists>c'\<in>set cookies. \<exists>u'. replay_url c' = Inr u' \<and> d = prepare c' u'"
      using set_calls_handleDecPasswdSubmit [OF dec, of epoch br]
        set_calls_replay_subset [of br epoch 0 0 cookies]
      by blast
  qed
  show ?thesis
    using fields path by blast
qed

theorem prepared_before_set_witness:
  "c_hostOnly cookie_host = Some True \<and> c_session cookie_host = Some True
   \<and> c_hostOnly cookie_sid \<noteq> Some True \<and> c_session cookie_sid \<noteq> Some True
   \<and> decode demo_snapshots True (js ''pass'') (toy_encrypt None (js ''pass'') text_two)
        = Inr [cookie_old, cookie_host]
   \<and> prepare cookie_host (js ''http://x.orgundefined'')
        = \<lparr> c_name = Some (js ''h''), c_value = Some (js ''2''), c_domain = None,
            c_path = Some (js ''/''), c_secure = Some False, c_httpOnly = Some False,
            c_sameSite = Some (js ''no_restriction''), c_hostOnly = None, c_session = None,
            c_expirationDate = None, c_storeId = None,
            c_url = Some (js ''http://x.orgundefined'') \<rparr>
   \<and> c_domain (prepare cookie_sid (js ''https://x.org/'')) = Some (js ''.x.org'')
   \<and> c_expirationDate (prepare cookie_sid (js ''https://x.org/'')) = Some 2000
   \<and> set (set_calls (handleDecPasswdSubmit demo_snapshots True (js ''pass'')
          (toy_encrypt None (js ''pass'') text_two) 1000 browser_ok))
       \<subseteq> {prepare cookie_old (js ''https://x.org/''),
            prepare cookie_host (js ''http://x.orgundefined'')}"
proof -
  have h: "c_hostOnly cookie_host = Some True" "c_session cookie_host = Some True"
    "c_hostOnly cookie_sid \<noteq> Some True" "c_session cookie_sid \<noteq> Some True"
    by (simp_all add: cookie_defs)
  have sid: "c_domain cookie_sid = Some (js ''.x.org'')" "c_expirationDate cookie_sid = Some 2000"
    by (simp_all add: cookie_defs)
  have s: "c_domain (prepare cookie_sid (js ''https://x.org/'')) = Some (js ''.x.org'')
      \<and> c_expirationDate (prepare cookie_sid (js ''https://x.org/'')) = Some 2000"
    using prepared_before_set [of cookie_sid "js ''https://x.org/''" demo_snapshots True
        "js ''pass''" "toy_encrypt None (js ''pass'') text_two" "[cookie_old, cookie_host]"
        1000 browser_ok] h sid
    by simp
  have calls: "\<forall>d\<in>set (set_calls (handleDecPasswdSubmit demo_snapshots True (js ''pass'')
          (toy_encrypt None (js ''pass'') text_two) 1000 browser_ok)).
        \<exists>c'\<in>set [cookie_old, cookie_host]. \<exists>u'. replay_url c' = Inr u' \<and> d = prepare c' u'"
    using prepared_before_set [of cookie_host "js ''http://x.orgundefined''" demo_snapshots True
        "js ''pass''" "toy_encrypt None (js ''pass'') text_two" "[cookie_old, cookie_host]"
        1000 browser_ok] decode_two
    by blast
  have c: "set (set_calls (handleDecPasswdSubmit demo_snapshots True (js ''pass'')
          (toy_encrypt None (js ''pass'') text_two) 1000 browser_ok))
       \<subseteq> {prepare cookie_old (js ''https://x.org/''),
            prepare cookie_host (js ''http://x.orgundefined'')}"
    using calls url_old url_host by auto
  show ?thesis
    using h decode_two prepare_host s c by blast
qed

text \<open>
  The claim C6 as it is written, for every restore path, fails on the two other paths.
  \<open>restoreCookies\<close> of the backup-core module and \<open>restoreUnencryptedCookies\<close> send the
  domain of a host-only record, and \<open>restoreCookies\<close> fills a missing \<open>sameSite\<close> with
  \<open>lax\<close> and leaves a missing path, \<open>secure\<close> and \<open>httpOnly\<close> missing.
\<close>

theorem prepared_counterexample:
  "c_hostOnly cookie_host = Some True \<and> c_sameSite cookie_host = None
   \<and> c_path cookie_host = None
   \<and> set_calls (fst (restoreCookies demo_host text_host None None browser_ok))
        = [core_newCookie cookie_host]
   \<and> c_domain (core_newCookie cookie_host) = Some (js ''x.org'')
   \<and> c_sameSite (core_newCookie cookie_host) = Some (js ''lax'')
   \<and> c_path (core_newCookie cookie_host) = None
   \<and> c_httpOnly (core_newCookie cookie_host) = None
   \<and> set_calls (restoreUnencryptedCookies True [cookie_host] browser_ok)
        = [plain_details cookie_host]
   \<and> c_domain (plain_details cookie_host) = Some (js ''x.org'')"
proof -
  have p: "JSON_parse demo_host text_host = Some (Arr [cookie_host])"
    by (simp add: demo_host_def table_builtins_def)
  have a: "set_calls (fst (restoreCookies demo_host text_host None None browser_ok))
        = [core_newCookie cookie_host]"
    by (simp add: restoreCookies_def core_parse_def truthy_string_def p Let_def browser_ok_def)
  have b: "set_calls (restoreUnencryptedCookies True [cookie_host] browser_ok)
        = [plain_details cookie_host]"
    by (simp add: restoreUnencryptedCookies_def restoreSuccessAlert_def Let_def set_calls_append)
  have c: "c_hostOnly cookie_host = Some True \<and> c_sameSite cookie_host = None
      \<and> c_path cookie_host = None
      \<and> c_domain (core_newCookie cookie_host) = Some (js ''x.org'')
      \<and> c_sameSite (core_newCookie cookie_host) = Some (js ''lax'')
      \<and> c_path (core_newCookie cookie_host) = None
      \<and> c_httpOnly (core_newCookie cookie_host) = None
      \<and> c_domain (plain_details cookie_host) = Some (js ''x.org'')"
    by (simp add: cookie_defs core_newCookie_def plain_details_def truthy_string_def Let_def)
  show ?thesis
    using a b c by blast
qed

section \<open>The unencrypted import\<close>

lemma plain_callbacks_last:
  assumes "imported + length answers = n"
  shows "plain_callbacks n imported answers
           = (if answers = [] then [] else [Uncaught TypeError])"
  using assms
proof (induction answers arbitrary: imported)
  case Nil
  show ?case by simp
next
  case (Cons a answers)
  have rest: "Suc imported + length answers = n" using Cons.prems by simp
  show ?case
  proof (cases "answers = []")
    case True
    then have "Suc imported = n" using Cons.prems by simp
    then show ?thesis using True by (simp add: restoreSuccessAlert_def)
  next
    case False
    then have "Suc imported \<noteq> n" using Cons.prems by (cases answers) simp_all
    then show ?thesis using Cons.IH [OF rest] False by simp
  qed
qed

lemma restoreUnencryptedCookies_events:
  "restoreUnencryptedCookies True cookies br
     = map CookieSet (map plain_details cookies)
       @ (if cookies = [] then [] else [Uncaught TypeError])"
proof -
  have e: "enumerate 0 (map plain_details cookies) = [] \<longleftrightarrow> cookies = []"
    by (cases cookies) simp_all
  have "plain_callbacks (length cookies) 0
          (map (\<lambda>(k, d). br k d) (enumerate 0 (map plain_details cookies)))
        = (if cookies = [] then [] else [Uncaught TypeError])"
    using plain_callbacks_last [of 0
        "map (\<lambda>(k, d). br k d) (enumerate 0 (map plain_details cookies))" "length cookies"]
    by (simp add: e)
  then show ?thesis
    by (simp add: restoreUnencryptedCookies_def Let_def)
qed

text \<open>
  C10. \<open>restoreUnencryptedCookies\<close> counts every answer of the browser, failed or not,
  and when the count reaches the length of the list it calls \<open>restoreSuccessAlert\<close> with
  that count alone. The declaration of \<open>restoreSuccessAlert\<close> that is in effect takes two
  arguments and raises a TypeError on the missing second one, so the import of one cookie
  that the browser sets ends with an uncaught TypeError and no success alert.
\<close>

theorem unencrypted_import_alert:
  "restoreUnencryptedCookies True [cookie_host] browser_ok
     = [CookieSet (plain_details cookie_host), Uncaught TypeError]
   \<and> success_alerts (restoreUnencryptedCookies True [cookie_host] browser_ok) = []
   \<and> restoreUnencryptedCookies True [cookie_host] browser_rejects
     = [CookieSet (plain_details cookie_host), Uncaught TypeError]"
  by (simp add: restoreUnencryptedCookies_events)

section \<open>The envelope\<close>

lemma hex_digits_nonempty: "hex_digits n \<noteq> []"
  by (subst hex_digits.simps) simp

lemma toString16_nonempty: "toString16 n \<noteq> []"
  by (simp add: toString16_def hex_digits_nonempty)

lemma calculateChecksum_nonempty: "calculateChecksum s \<noteq> []"
  by (simp add: calculateChecksum_def toString16_nonempty)

lemma key_distinct:
  "js ''v'' \<noteq> js ''payload''" "js ''v'' \<noteq> js ''checksum''" "js ''payload'' \<noteq> js ''checksum''"
  "js ''payload'' \<noteq> js ''v''" "js ''checksum'' \<noteq> js ''v''" "js ''checksum'' \<noteq> js ''payload''"
  "js ''version'' \<noteq> js ''v''" "js ''version'' \<noteq> js ''payload''"
  "js ''version'' \<noteq> js ''checksum''" "js ''v'' \<noteq> js ''version''"
  by (simp_all add: js_def)

lemma wrap_properties:
  "get_property (wrap e ct) (js ''v'') = Inr (Some (PNum 1))"
  "get_property (wrap e ct) (js ''payload'') = Inr (Some (PStr ct))"
  "get_property (wrap e ct) (js ''checksum'')
     = Inr (Some (if e then PStr (calculateChecksum ct) else PNull))"
  "get_property (wrap e ct) (js ''version'') = Inr None"
  by (simp_all add: wrap_def get_property_def key_distinct)

lemma is_wrapper_wrap: "is_wrapper (wrap e ct) \<longleftrightarrow> ct \<noteq> []"
  by (simp add: is_wrapper_def wrap_properties)

lemma unwrap_try_wrap:
  assumes "JSON_parse B data = Some (wrap e ct)" and "ct \<noteq> []"
  shows "unwrap_try B enhanced data = Inr (PStr ct)"
  using assms by (simp add: unwrap_try_def wrap_properties calculateChecksum_nonempty)

lemma unwrap_wrap:
  assumes "JSON_parse B data = Some (wrap e ct)" and "ct \<noteq> []"
  shows "unwrap B enhanced data = PStr ct"
  using unwrap_try_wrap [OF assms] by (simp add: unwrap_def)

lemma unwrap_try_not_wrapper:
  assumes "JSON_parse B data = Some w" and "\<not> is_wrapper w"
  shows "unwrap_try B enhanced data = Inl TypeError \<or> unwrap_try B enhanced data = Inr (PStr data)"
proof (cases w)
  case (Prim x)
  then show ?thesis
    using assms(1) by (cases x) (simp_all add: unwrap_try_def get_property_def)
next
  case (Arr cs)
  then show ?thesis
    using assms(1) by (simp add: unwrap_try_def get_property_def)
next
  case (Obj kvs)
  show ?thesis
  proof (cases "map_of kvs (js ''payload'')")
    case None
    then show ?thesis
      using assms(1) Obj by (simp add: unwrap_try_def get_property_def)
  next
    case (Some p)
    then have "\<not> (map_of kvs (js ''v'') = Some (PNum 1) \<and> truthy p)"
      using assms(2) Obj by (simp add: is_wrapper_def get_property_def)
    then show ?thesis
      using assms(1) Obj Some by (auto simp: unwrap_try_def get_property_def)
  qed
qed

lemma unwrap_legacy:
  assumes "JSON_parse B data = None \<or> (\<exists>w. JSON_parse B data = Some w \<and> \<not> is_wrapper w)"
  shows "unwrap B enhanced data = PStr data"
proof (cases "JSON_parse B data")
  case None
  then show ?thesis by (simp add: unwrap_def unwrap_try_def)
next
  case (Some w)
  then have "\<not> is_wrapper w" using assms by auto
  then show ?thesis
    using unwrap_try_not_wrapper [OF Some, of enhanced]
    by (auto simp: unwrap_def)
qed

lemma decode_cookies:
  assumes "unwrap B enhanced data = x" and "sjcl_decrypt B pw x = Inr plain"
    and "JSON_parse B plain = Some (Arr S)"
  shows "decode B enhanced pw data = check_first S"
  using assms by (simp add: decode_def decompressData_def)

lemma emitted_handleEncPasswdSubmit:
  assumes "4 \<le> length (pass i)" and "chromeAvailable i"
    and "\<not> (alsoSendTelegram i \<and> \<not> telegramAvailable i)"
    and "filter (cookieFilter (selectedDomainsForBackup i)) (allCookies i) \<noteq> []"
  shows "emitted (handleEncPasswdSubmit B i)
           = backup_text B (enhancedFeatures i) (pass i)
               (filter (cookieFilter (selectedDomainsForBackup i)) (allCookies i))
             # (if sendToTelegram i
                then [backup_text B (enhancedFeatures i) (pass i)
                        (filter (cookieFilter (selectedDomainsForBackup i)) (allCookies i))]
                else [])"
proof -
  have p: "pass i \<noteq> []" "\<not> length (pass i) < 4" using assms(1) by auto
  show ?thesis
    using assms(2-4) p
    by (simp add: handleEncPasswdSubmit_def Let_def)
qed

lemma emitted_append: "emitted (xs @ ys) = emitted xs @ emitted ys"
  by (induction xs rule: emitted.induct) simp_all

lemma emitted_handleEncPasswdSubmit_any:
  "\<forall>t\<in>set (emitted (handleEncPasswdSubmit B i)).
      t = backup_text B (enhancedFeatures i) (pass i)
            (filter (cookieFilter (selectedDomainsForBackup i)) (allCookies i))"
  by (simp add: handleEncPasswdSubmit_def Let_def emitted_append)

lemma emitted_manualCookieBackup:
  "\<forall>t\<in>set (emitted (manualCookieBackup B profileName password cookies stamp err tg)).
      t = sjcl_encrypt B None password (JSON_stringify B (Arr cookies))"
  by (simp add: manualCookieBackup_def Let_def emitted_append split: option.splits)

lemma backup_text_eq:
  "backup_text B e pw S
     = JSON_stringify B (wrap e (sjcl_encrypt B (Some 256) pw (JSON_stringify B (Arr S))))"
  by (simp add: backup_text_def Let_def compressData_def)

lemma stringify_host: "JSON_stringify demo_host (Arr [cookie_host]) = text_host"
  by (simp add: demo_host_def table_builtins_def)

lemma encrypt_host: "toy_encrypt ks (js ''pass'') text_host = cipher_host"
  by (simp add: toy_encrypt_def text_host_def cipher_host_def js_def)

lemma sjcl_encrypt_host: "sjcl_encrypt demo_host ks (js ''pass'') text_host = cipher_host"
  by (simp add: demo_host_def table_builtins_def encrypt_host)

lemma checksum_host: "calculateChecksum cipher_host = js ''-2d5148e9''"
  by code_simp

lemma wrap_host:
  "wrap True cipher_host
     = Obj [(js ''v'', PNum 1), (js ''payload'', PStr cipher_host),
            (js ''checksum'', PStr (js ''-2d5148e9''))]"
  by (simp add: wrap_def checksum_host)

lemma texts_distinct:
  "text_host \<noteq> text_wrapped_host" "text_host \<noteq> text_wrong_checksum"
  "text_host \<noteq> text_version" "text_wrong_checksum \<noteq> text_version"
  "cipher_host \<noteq> text_host" "cipher_host \<noteq> text_wrapped_host"
  "text_wrong_checksum \<noteq> cipher_host" "text_version \<noteq> cipher_host"
  by (simp_all add: text_host_def text_wrapped_host_def text_wrong_checksum_def
      text_version_def cipher_host_def js_def)

lemma stringify_wrapped: "JSON_stringify demo_host (wrap True cipher_host) = text_wrapped_host"
  by (simp add: wrap_host demo_host_def table_builtins_def)

lemma parse_wrapped: "JSON_parse demo_host text_wrapped_host = Some (wrap True cipher_host)"
  by (simp add: wrap_host demo_host_def table_builtins_def texts_distinct
      texts_distinct [symmetric])

lemma parse_host: "JSON_parse demo_host text_host = Some (Arr [cookie_host])"
  by (simp add: demo_host_def table_builtins_def)

lemma decrypt_host: "sjcl_decrypt demo_host (js ''pass'') (PStr cipher_host) = Inr text_host"
  using toy_cipher_law [of "js ''pass''" None text_host]
  by (simp add: demo_host_def table_builtins_def encrypt_host)

lemma cipher_host_nonempty: "cipher_host \<noteq> []"
  by (simp add: cipher_host_def js_def)

section \<open>The claims about the backup file\<close>

text \<open>
  C1. A backup and a restore with the same password give the snapshot back. Let \<open>S\<close> be
  the non-empty list of the cookies that pass the filter of \<open>handleEncPasswdSubmit\<close>,
  each with a name, a value and a domain, and let the password have at least 4
  characters. Provided the built-in functions keep their laws on the values of this run
  (\<open>JSON.parse\<close> gives back what \<open>JSON.stringify\<close> was given, for the snapshot and for the
  wrapper; \<open>sjcl.decrypt\<close> with the password gives back the plain text of
  \<open>sjcl.encrypt\<close>, whose ciphertext is not empty), every text that the backup writes is
  taken for a wrapper by the restore, its payload is the ciphertext, and decryption and
  parsing give exactly \<open>S\<close>, in the same order, which the restore then replays. This holds
  whether or not \<open>window.enhancedFeatures\<close> is there at the backup and at the restore.
\<close>

theorem backup_restore_roundtrip:
  assumes pw: "4 \<le> length (pass i)"
    and chrome: "chromeAvailable i"
    and telegram: "\<not> (alsoSendTelegram i \<and> \<not> telegramAvailable i)"
    and S: "S = filter (cookieFilter (selectedDomainsForBackup i)) (allCookies i)"
    and nonempty: "S \<noteq> []"
    and fields: "\<forall>c\<in>set S. c_name c \<noteq> None \<and> c_value c \<noteq> None \<and> c_domain c \<noteq> None"
    and json_snapshot: "JSON_parse B (JSON_stringify B (Arr S)) = Some (Arr S)"
    and ct: "ct = sjcl_encrypt B (Some 256) (pass i) (JSON_stringify B (Arr S))"
    and json_wrapper: "JSON_parse B (JSON_stringify B (wrap (enhancedFeatures i) ct))
                         = Some (wrap (enhancedFeatures i) ct)"
    and cipher: "sjcl_decrypt B (pass i) (PStr ct) = Inr (JSON_stringify B (Arr S))"
    and ct_nonempty: "ct \<noteq> []"
  shows "emitted (handleEncPasswdSubmit B i) \<noteq> []
      \<and> (\<forall>t\<in>set (emitted (handleEncPasswdSubmit B i)).
            t = JSON_stringify B (wrap (enhancedFeatures i) ct)
          \<and> unwrap B enhanced t = PStr ct
          \<and> decode B enhanced (pass i) t = Inr S
          \<and> handleDecPasswdSubmit B enhanced (pass i) t epoch br
              = InitProgress (length S)
                # (case replay br epoch 0 0 S of
                     (evs, Inl e) \<Rightarrow> evs @ [Uncaught e]
                   | (evs, Inr n) \<Rightarrow> evs @ [RestoreSuccessAlert n (length S), HideProgress]))"
proof -
  let ?t = "JSON_stringify B (wrap (enhancedFeatures i) ct)"
  have bt: "backup_text B (enhancedFeatures i) (pass i) S = ?t"
    by (simp add: backup_text_def Let_def compressData_def ct)
  have em: "emitted (handleEncPasswdSubmit B i) = ?t # (if sendToTelegram i then [?t] else [])"
    using emitted_handleEncPasswdSubmit [OF pw chrome telegram, of B] nonempty
    by (simp only: S [symmetric] bt) simp
  have un: "unwrap B enhanced ?t = PStr ct"
    by (rule unwrap_wrap [OF json_wrapper ct_nonempty])
  obtain c cs where list: "S = c # cs"
    using nonempty by (cases S) auto
  have first: "c_name c \<noteq> None \<and> c_value c \<noteq> None \<and> c_domain c \<noteq> None"
    using fields list by simp
  have check: "check_first S = Inr S"
    using first by (simp add: check_first_def list)
  have dec: "decode B enhanced (pass i) ?t = Inr S"
    using decode_cookies [OF un cipher json_snapshot] check by simp
  have nonempty_pw: "pass i \<noteq> []" "\<not> length (pass i) < 1"
    using pw by auto
  have run: "handleDecPasswdSubmit B enhanced (pass i) ?t epoch br
              = InitProgress (length S)
                # (case replay br epoch 0 0 S of
                     (evs, Inl e) \<Rightarrow> evs @ [Uncaught e]
                   | (evs, Inr n) \<Rightarrow> evs @ [RestoreSuccessAlert n (length S), HideProgress])"
    using nonempty_pw dec
    by (simp add: handleDecPasswdSubmit_def restoreSuccessAlert_def split: prod.splits sum.splits)
  show ?thesis
    using em un dec run by simp
qed

theorem backup_restore_roundtrip_witness:
  "4 \<le> length (pass demo_input) \<and> chromeAvailable demo_input
   \<and> \<not> (alsoSendTelegram demo_input \<and> \<not> telegramAvailable demo_input)
   \<and> [cookie_host] = filter (cookieFilter (selectedDomainsForBackup demo_input))
                         (allCookies demo_input)
   \<and> c_name cookie_host \<noteq> None \<and> c_value cookie_host \<noteq> None \<and> c_domain cookie_host \<noteq> None
   \<and> JSON_parse demo_host (JSON_stringify demo_host (Arr [cookie_host]))
        = Some (Arr [cookie_host])
   \<and> cipher_host = sjcl_encrypt demo_host (Some 256) (pass demo_input)
                      (JSON_stringify demo_host (Arr [cookie_host]))
   \<and> JSON_parse demo_host (JSON_stringify demo_host (wrap (enhancedFeatures demo_input) cipher_host))
        = Some (wrap (enhancedFeatures demo_input) cipher_host)
   \<and> sjcl_decrypt demo_host (pass demo_input) (PStr cipher_host)
        = Inr (JSON_stringify demo_host (Arr [cookie_host]))
   \<and> cipher_host \<noteq> []
   \<and> emitted (handleEncPasswdSubmit demo_host demo_input) = [text_wrapped_host, text_wrapped_host]
   \<and> unwrap demo_host False text_wrapped_host = PStr cipher_host
   \<and> decode demo_host False (js ''pass'') text_wrapped_host = Inr [cookie_host]"
proof -
  have pw: "4 \<le> length (pass demo_input)" by (simp add: demo_input_def js_def)
  have pass: "pass demo_input = js ''pass''" "enhancedFeatures demo_input = True"
    "sendToTelegram demo_input = True"
    by (simp_all add: demo_input_def)
  have chrome: "chromeAvailable demo_input" by (simp add: demo_input_def)
  have telegram: "\<not> (alsoSendTelegram demo_input \<and> \<not> telegramAvailable demo_input)"
    by (simp add: demo_input_def)
  have S: "[cookie_host] = filter (cookieFilter (selectedDomainsForBackup demo_input))
                         (allCookies demo_input)"
    by (simp add: demo_input_def cookieFilter_def)
  have nonempty: "[cookie_host] \<noteq> []" by simp
  have f: "c_name cookie_host \<noteq> None \<and> c_value cookie_host \<noteq> None
      \<and> c_domain cookie_host \<noteq> None"
    by (simp add: cookie_defs)
  have fields: "\<forall>c\<in>set [cookie_host].
      c_name c \<noteq> None \<and> c_value c \<noteq> None \<and> c_domain c \<noteq> None"
    using f by simp
  have json_snapshot: "JSON_parse demo_host (JSON_stringify demo_host (Arr [cookie_host]))
        = Some (Arr [cookie_host])"
    by (simp add: stringify_host parse_host)
  have ct: "cipher_host = sjcl_encrypt demo_host (Some 256) (pass demo_input)
                      (JSON_stringify demo_host (Arr [cookie_host]))"
    by (simp add: pass stringify_host sjcl_encrypt_host)
  have json_wrapper: "JSON_parse demo_host
        (JSON_stringify demo_host (wrap (enhancedFeatures demo_input) cipher_host))
        = Some (wrap (enhancedFeatures demo_input) cipher_host)"
    by (simp add: pass stringify_wrapped parse_wrapped)
  have cipher: "sjcl_decrypt demo_host (pass demo_input) (PStr cipher_host)
        = Inr (JSON_stringify demo_host (Arr [cookie_host]))"
    by (simp add: pass stringify_host decrypt_host)
  have em: "emitted (handleEncPasswdSubmit demo_host demo_input)
      = [text_wrapped_host, text_wrapped_host]"
    using emitted_handleEncPasswdSubmit [OF pw chrome telegram, of demo_host] S [symmetric]
    by (simp add: pass backup_text_def Let_def compressData_def stringify_host
        sjcl_encrypt_host stringify_wrapped)
  have all: "\<forall>t\<in>set (emitted (handleEncPasswdSubmit demo_host demo_input)).
          t = JSON_stringify demo_host (wrap (enhancedFeatures demo_input) cipher_host)
          \<and> unwrap demo_host False t = PStr cipher_host
          \<and> decode demo_host False (pass demo_input) t = Inr [cookie_host]
          \<and> handleDecPasswdSubmit demo_host False (pass demo_input) t 1000 browser_ok
              = InitProgress (length [cookie_host])
                # (case replay browser_ok 1000 0 0 [cookie_host] of
                     (evs, Inl e) \<Rightarrow> evs @ [Uncaught e]
                   | (evs, Inr n) \<Rightarrow>
                       evs @ [RestoreSuccessAlert n (length [cookie_host]), HideProgress])"
    using backup_restore_roundtrip [OF pw chrome telegram S nonempty fields json_snapshot ct
        json_wrapper cipher cipher_host_nonempty, of False 1000 browser_ok]
    by blast
  have res: "unwrap demo_host False text_wrapped_host = PStr cipher_host
      \<and> decode demo_host False (js ''pass'') text_wrapped_host = Inr [cookie_host]"
    using all by (simp add: em pass)
  show ?thesis
    using pw chrome telegram S f json_snapshot ct json_wrapper cipher cipher_host_nonempty em res
    by blast
qed

lemma parse_wrong_checksum:
  "JSON_parse demo_files text_wrong_checksum
     = Some (Obj [(js ''v'', PNum 1), (js ''payload'', PStr cipher_host),
                  (js ''checksum'', PStr (js ''0''))])"
  by (simp add: demo_files_def table_builtins_def texts_distinct texts_distinct [symmetric])

lemma parse_version:
  "JSON_parse demo_files text_version
     = Some (Obj [(js ''version'', PNum 1), (js ''payload'', PStr cipher_host),
                  (js ''checksum'', PStr (js ''-2d5148e9''))])"
  by (simp add: demo_files_def table_builtins_def texts_distinct texts_distinct [symmetric])

lemma startsWith_append:
  assumes "startsWith x (a @ b)"
  shows "startsWith x a"
proof -
  have "take (length a) x = take (length a) (take (length (a @ b)) x)"
    by (simp add: min_def)
  also have "\<dots> = take (length a) (a @ b)"
    using assms by (simp add: startsWith_def)
  finally show ?thesis by (simp add: startsWith_def)
qed

lemma toy_decrypt_invalid:
  assumes "\<not> startsWith x (js ''sjcl:'')"
  shows "toy_decrypt pw (PStr x) = Inl SjclInvalid"
proof -
  have "\<not> startsWith x (js ''sjcl:'' @ pw @ js '':'')"
    using assms startsWith_append by blast
  then show ?thesis using assms by (simp add: toy_decrypt_def)
qed

lemma texts_no_cipher:
  "\<not> startsWith text_wrong_checksum (js ''sjcl:'')" "\<not> startsWith text_version (js ''sjcl:'')"
  by (simp_all add: startsWith_def text_wrong_checksum_def text_version_def js_def)

lemma decrypt_files:
  "sjcl_decrypt demo_files pw (PStr text_wrong_checksum) = Inl SjclInvalid"
  "sjcl_decrypt demo_files pw (PStr text_version) = Inl SjclInvalid"
  "sjcl_decrypt demo_files (js ''pass'') (PStr cipher_host) = Inr text_host"
  using toy_cipher_law [of "js ''pass''" None text_host]
  by (simp_all add: demo_files_def table_builtins_def toy_decrypt_invalid texts_no_cipher
      encrypt_host)

lemma checksum_differs: "js ''0'' \<noteq> calculateChecksum cipher_host"
  by (simp add: checksum_host js_def)

lemma message_distinct:
  "js ''Checksum verification failed'' \<noteq> js ''Invalid cookie data structure''"
  by (simp add: js_def)

text \<open>
  C2, as amended. When the restore parses a wrapper whose checksum is present and differs
  from the checksum of the payload, and \<open>window.enhancedFeatures\<close> is there, the
  verification raises the error \<open>Checksum verification failed\<close>, the error for which the
  restore has the alert that the integrity check failed; nothing is logged, and the block
  does not end with the payload as the text to decrypt. (Without
  \<open>window.enhancedFeatures\<close> nothing is verified and the payload is taken.)
\<close>

theorem checksum_mismatch_raises:
  assumes parse: "JSON_parse B data = Some (Obj kvs)"
    and v: "map_of kvs (js ''v'') = Some (PNum 1)"
    and p: "map_of kvs (js ''payload'') = Some (PStr payload)" and pne: "payload \<noteq> []"
    and c: "map_of kvs (js ''checksum'') = Some expectedChecksum"
    and present: "truthy expectedChecksum"
    and mismatch: "expectedChecksum \<noteq> PStr (calculateChecksum payload)"
  shows "unwrap_try B True data = Inl (Error (js ''Checksum verification failed''))
      \<and> alert_for (Error (js ''Checksum verification failed''))
          = js ''File integrity check failed. The backup may be corrupted.''
      \<and> unwrap_try B False data = Inr (PStr payload)"
proof -
  have a: "unwrap_try B True data = Inl (Error (js ''Checksum verification failed''))"
    using assms by (auto simp: unwrap_try_def get_property_def)
  have b: "alert_for (Error (js ''Checksum verification failed''))
          = js ''File integrity check failed. The backup may be corrupted.''"
    by (simp add: alert_for_def message_distinct)
  have c: "unwrap_try B False data = Inr (PStr payload)"
    using assms by (simp add: unwrap_try_def get_property_def)
  show ?thesis
    using a b c by blast
qed

theorem checksum_mismatch_raises_witness:
  "JSON_parse demo_files text_wrong_checksum
     = Some (Obj [(js ''v'', PNum 1), (js ''payload'', PStr cipher_host),
                  (js ''checksum'', PStr (js ''0''))])
   \<and> cipher_host \<noteq> [] \<and> truthy (PStr (js ''0''))
   \<and> PStr (js ''0'') \<noteq> PStr (calculateChecksum cipher_host)
   \<and> unwrap_try demo_files True text_wrong_checksum
        = Inl (Error (js ''Checksum verification failed''))
   \<and> unwrap_try demo_files False text_wrong_checksum = Inr (PStr cipher_host)"
proof -
  have v: "map_of [(js ''v'', PNum 1), (js ''payload'', PStr cipher_host),
                   (js ''checksum'', PStr (js ''0''))] (js ''v'') = Some (PNum 1)"
    by simp
  have p: "map_of [(js ''v'', PNum 1), (js ''payload'', PStr cipher_host),
                   (js ''checksum'', PStr (js ''0''))] (js ''payload'') = Some (PStr cipher_host)"
    by (simp add: key_distinct)
  have c: "map_of [(js ''v'', PNum 1), (js ''payload'', PStr cipher_host),
                   (js ''checksum'', PStr (js ''0''))] (js ''checksum'') = Some (PStr (js ''0''))"
    by (simp add: key_distinct)
  have present: "truthy (PStr (js ''0''))" by (simp add: js_def)
  have mismatch: "PStr (js ''0'') \<noteq> PStr (calculateChecksum cipher_host)"
    using checksum_differs by simp
  show ?thesis
    using checksum_mismatch_raises [OF parse_wrong_checksum v p cipher_host_nonempty c present
        mismatch]
      parse_wrong_checksum cipher_host_nonempty present mismatch
    by blast
qed

text \<open>
  The claim C2 as it is written fails: on a mismatch nothing is logged, the error is taken
  by the handler of the inner block, which sets the text to decrypt back to the whole
  file, and decryption is tried on the file text and not on the payload. With a cipher
  that, like \<open>sjcl\<close>, rejects a text that is no ciphertext, the restore ends with the
  alert for an invalid file, although the payload itself decrypts with the password.
\<close>

theorem checksum_mismatch_counterexample:
  "unwrap demo_files True text_wrong_checksum = PStr text_wrong_checksum
   \<and> text_wrong_checksum \<noteq> cipher_host
   \<and> sjcl_decrypt demo_files (js ''pass'') (PStr cipher_host) = Inr text_host
   \<and> handleDecPasswdSubmit demo_files True (js ''pass'') text_wrong_checksum 1000 browser_ok
        = [Alert (js ''File is not a valid .ckz file!'')]"
proof -
  have t: "unwrap_try demo_files True text_wrong_checksum
      = Inl (Error (js ''Checksum verification failed''))"
    by (simp add: unwrap_try_def parse_wrong_checksum get_property_def key_distinct
        cipher_host_nonempty checksum_host js_def)
  have u: "unwrap demo_files True text_wrong_checksum = PStr text_wrong_checksum"
    by (simp add: unwrap_def t)
  have d: "decode demo_files True (js ''pass'') text_wrong_checksum = Inl SjclInvalid"
    by (simp add: decode_def u decrypt_files)
  have pw: "js ''pass'' \<noteq> []" "\<not> length (js ''pass'') < 1" by (simp_all add: js_def)
  have h: "handleDecPasswdSubmit demo_files True (js ''pass'') text_wrong_checksum 1000 browser_ok
        = [Alert (js ''File is not a valid .ckz file!'')]"
    using pw by (simp add: handleDecPasswdSubmit_def d alert_for_def)
  show ?thesis
    using u h texts_distinct decrypt_files by blast
qed

text \<open>
  C3, as amended. The object that a current encrypted backup writes has exactly the
  properties \<open>v\<close> (the number 1), \<open>payload\<close> (the ciphertext) and \<open>checksum\<close> (the
  checksum of the ciphertext, or \<open>null\<close> without \<open>window.enhancedFeatures\<close>). The restore
  takes a parsed value for a wrapper when its \<open>v\<close> is the number 1 and its \<open>payload\<close> is
  truthy; the payload of the program's own files goes on to decryption, and so does the
  payload of every wrapper when nothing is verified. A text that does not parse, or
  parses to anything else, is handed to decryption as it is, as a bare ciphertext.
\<close>

theorem envelope_format:
  "wrap e ct = Obj [(js ''v'', PNum 1), (js ''payload'', PStr ct),
                    (js ''checksum'', if e then PStr (calculateChecksum ct) else PNull)]
   \<and> (\<forall>t\<in>set (emitted (handleEncPasswdSubmit B i)).
         \<exists>c. t = JSON_stringify B (wrap (enhancedFeatures i) c))
   \<and> (is_wrapper w \<longleftrightarrow>
        (\<exists>kvs p. w = Obj kvs \<and> map_of kvs (js ''v'') = Some (PNum 1)
                 \<and> map_of kvs (js ''payload'') = Some p \<and> truthy p))
   \<and> (JSON_parse B data = Some (wrap e ct) \<and> ct \<noteq> [] \<longrightarrow> unwrap B enhanced data = PStr ct)
   \<and> (JSON_parse B data = Some w \<and> is_wrapper w \<longrightarrow>
        get_property w (js ''payload'') = Inr (Some (unwrap B False data)))
   \<and> (JSON_parse B data = None \<or> (\<exists>w'. JSON_parse B data = Some w' \<and> \<not> is_wrapper w') \<longrightarrow>
        unwrap B enhanced data = PStr data)"
proof -
  have written: "\<forall>t\<in>set (emitted (handleEncPasswdSubmit B i)).
         \<exists>c. t = JSON_stringify B (wrap (enhancedFeatures i) c)"
    using emitted_handleEncPasswdSubmit_any [of B i]
    by (auto simp: backup_text_def Let_def)
  have rec: "is_wrapper w \<longleftrightarrow>
        (\<exists>kvs p. w = Obj kvs \<and> map_of kvs (js ''v'') = Some (PNum 1)
                 \<and> map_of kvs (js ''payload'') = Some p \<and> truthy p)"
  proof (cases w)
    case (Prim x)
    then show ?thesis by (cases x) (simp_all add: is_wrapper_def get_property_def)
  next
    case (Arr cs)
    then show ?thesis by (simp add: is_wrapper_def get_property_def)
  next
    case (Obj kvs)
    then show ?thesis
      by (cases "map_of kvs (js ''payload'')") (simp_all add: is_wrapper_def get_property_def)
  qed
  have own: "JSON_parse B data = Some (wrap e ct) \<and> ct \<noteq> [] \<longrightarrow>
      unwrap B enhanced data = PStr ct"
    using unwrap_wrap by blast
  have unverified: "JSON_parse B data = Some w \<and> is_wrapper w \<longrightarrow>
        get_property w (js ''payload'') = Inr (Some (unwrap B False data))"
  proof (intro impI, elim conjE)
    assume parse: "JSON_parse B data = Some w" and "is_wrapper w"
    then obtain kvs p where w: "w = Obj kvs" and v: "map_of kvs (js ''v'') = Some (PNum 1)"
      and p: "map_of kvs (js ''payload'') = Some p" and t: "truthy p"
      using rec by blast
    have "unwrap B False data = p"
      using parse w v p t
      by (cases "map_of kvs (js ''checksum'')")
         (simp_all add: unwrap_def unwrap_try_def get_property_def)
    then show "get_property w (js ''payload'') = Inr (Some (unwrap B False data))"
      using w p by (simp add: get_property_def)
  qed
  have legacy: "JSON_parse B data = None \<or> (\<exists>w'. JSON_parse B data = Some w' \<and> \<not> is_wrapper w')
      \<longrightarrow> unwrap B enhanced data = PStr data"
    using unwrap_legacy by blast
  have shape: "wrap e ct = Obj [(js ''v'', PNum 1), (js ''payload'', PStr ct),
                    (js ''checksum'', if e then PStr (calculateChecksum ct) else PNull)]"
    by (simp add: wrap_def)
  show ?thesis
    using shape written rec own unverified legacy by blast
qed

lemma parse_cipher_host: "JSON_parse demo_host cipher_host = None"
  by (simp add: demo_host_def table_builtins_def texts_distinct)

lemma emitted_demo:
  "emitted (handleEncPasswdSubmit demo_host demo_input) = [text_wrapped_host, text_wrapped_host]"
proof -
  have pw: "4 \<le> length (pass demo_input)" by (simp add: demo_input_def js_def)
  have chrome: "chromeAvailable demo_input" by (simp add: demo_input_def)
  have telegram: "\<not> (alsoSendTelegram demo_input \<and> \<not> telegramAvailable demo_input)"
    by (simp add: demo_input_def)
  have S: "filter (cookieFilter (selectedDomainsForBackup demo_input)) (allCookies demo_input)
      = [cookie_host]"
    by (simp add: demo_input_def cookieFilter_def)
  have ne: "filter (cookieFilter (selectedDomainsForBackup demo_input)) (allCookies demo_input)
      \<noteq> []"
    by (simp add: S)
  have fl: "pass demo_input = js ''pass''" "enhancedFeatures demo_input = True"
    "sendToTelegram demo_input = True"
    by (simp_all add: demo_input_def)
  show ?thesis
    using emitted_handleEncPasswdSubmit [OF pw chrome telegram ne, of demo_host]
    by (simp add: S fl backup_text_def Let_def compressData_def stringify_host
        sjcl_encrypt_host stringify_wrapped)
qed

theorem envelope_format_witness:
  "JSON_parse demo_host text_wrapped_host = Some (wrap True cipher_host) \<and> cipher_host \<noteq> []
   \<and> is_wrapper (wrap True cipher_host)
   \<and> JSON_parse demo_host cipher_host = None
   \<and> wrap True cipher_host
        = Obj [(js ''v'', PNum 1), (js ''payload'', PStr cipher_host),
               (js ''checksum'', PStr (js ''-2d5148e9''))]
   \<and> emitted (handleEncPasswdSubmit demo_host demo_input)
        = [JSON_stringify demo_host (wrap True cipher_host),
           JSON_stringify demo_host (wrap True cipher_host)]
   \<and> unwrap demo_host True text_wrapped_host = PStr cipher_host
   \<and> get_property (wrap True cipher_host) (js ''payload'')
        = Inr (Some (unwrap demo_host False text_wrapped_host))
   \<and> unwrap demo_host True cipher_host = PStr cipher_host"
proof -
  have w: "is_wrapper (wrap True cipher_host)"
    by (simp add: is_wrapper_wrap cipher_host_nonempty)
  note th = envelope_format [of True cipher_host demo_host demo_input "wrap True cipher_host"
      text_wrapped_host True]
  have a: "unwrap demo_host True text_wrapped_host = PStr cipher_host"
    using th parse_wrapped cipher_host_nonempty by blast
  have b: "get_property (wrap True cipher_host) (js ''payload'')
        = Inr (Some (unwrap demo_host False text_wrapped_host))"
    using th parse_wrapped w by blast
  have c: "unwrap demo_host True cipher_host = PStr cipher_host"
    using envelope_format [of True cipher_host demo_host demo_input "wrap True cipher_host"
      cipher_host True] parse_cipher_host
    by blast
  have e: "emitted (handleEncPasswdSubmit demo_host demo_input)
        = [JSON_stringify demo_host (wrap True cipher_host),
           JSON_stringify demo_host (wrap True cipher_host)]"
    by (simp add: emitted_demo stringify_wrapped)
  show ?thesis
    using parse_wrapped cipher_host_nonempty w parse_cipher_host wrap_host e a b c by blast
qed

text \<open>
  The claim C3 as it is written fails on the name of the first property. The object that
  is written has no property \<open>version\<close>, and a file in the shape
  \<open>{version, payload, checksum}\<close> with the right checksum is not taken for a wrapper: the
  whole text goes to decryption, and with a cipher that rejects a text that is no
  ciphertext the restore ends with the alert for an invalid file.
\<close>

theorem envelope_format_counterexample:
  "get_property (wrap True cipher_host) (js ''version'') = Inr None
   \<and> JSON_parse demo_files text_version
        = Some (Obj [(js ''version'', PNum 1), (js ''payload'', PStr cipher_host),
                     (js ''checksum'', PStr (calculateChecksum cipher_host))])
   \<and> \<not> is_wrapper (Obj [(js ''version'', PNum 1), (js ''payload'', PStr cipher_host),
                          (js ''checksum'', PStr (calculateChecksum cipher_host))])
   \<and> unwrap demo_files True text_version = PStr text_version
   \<and> handleDecPasswdSubmit demo_files True (js ''pass'') text_version 1000 browser_ok
        = [Alert (js ''File is not a valid .ckz file!'')]"
proof -
  have n: "\<not> is_wrapper (Obj [(js ''version'', PNum 1), (js ''payload'', PStr cipher_host),
                          (js ''checksum'', PStr (calculateChecksum cipher_host))])"
    by (simp add: is_wrapper_def get_property_def key_distinct)
  have p: "JSON_parse demo_files text_version
        = Some (Obj [(js ''version'', PNum 1), (js ''payload'', PStr cipher_host),
                     (js ''checksum'', PStr (calculateChecksum cipher_host))])"
    by (simp add: parse_version checksum_host)
  have u: "unwrap demo_files True text_version = PStr text_version"
    using unwrap_legacy [of demo_files text_version True] p n by blast
  have d: "decode demo_files True (js ''pass'') text_version = Inl SjclInvalid"
    by (simp add: decode_def u decrypt_files)
  have pw: "js ''pass'' \<noteq> []" "\<not> length (js ''pass'') < 1" by (simp_all add: js_def)
  have h: "handleDecPasswdSubmit demo_files True (js ''pass'') text_version 1000 browser_ok
        = [Alert (js ''File is not a valid .ckz file!'')]"
    using pw by (simp add: handleDecPasswdSubmit_def d alert_for_def)
  show ?thesis
    using wrap_properties(4) p n u h by blast
qed

text \<open>
  C7, as amended. The bare ciphertext is accepted on read: a text that does not parse to
  a wrapper is decrypted as it is. On write, \<open>handleEncPasswdSubmit\<close> gives the file and
  the messaging service the JSON text of the wrapper around the ciphertext, and nothing
  else; \<open>manualCookieBackup\<close> of the backup-core module gives both the bare ciphertext.
\<close>

theorem legacy_read_and_write:
  "(\<forall>t\<in>set (emitted (handleEncPasswdSubmit B i)).
      t = JSON_stringify B (wrap (enhancedFeatures i)
            (sjcl_encrypt B (Some 256) (pass i)
               (JSON_stringify B
                  (Arr (filter (cookieFilter (selectedDomainsForBackup i)) (allCookies i)))))))
   \<and> (\<forall>t\<in>set (emitted (manualCookieBackup B profileName password cookies stamp err tg)).
        t = sjcl_encrypt B None password (JSON_stringify B (Arr cookies)))
   \<and> (JSON_parse B data = None \<or> (\<exists>w. JSON_parse B data = Some w \<and> \<not> is_wrapper w) \<longrightarrow>
        unwrap B enhanced data = PStr data
        \<and> (sjcl_decrypt B pw (PStr data) = Inr plain \<and> JSON_parse B plain = Some (Arr S)
             \<longrightarrow> decode B enhanced pw data = check_first S))"
proof -
  have a: "\<forall>t\<in>set (emitted (handleEncPasswdSubmit B i)).
      t = JSON_stringify B (wrap (enhancedFeatures i)
            (sjcl_encrypt B (Some 256) (pass i)
               (JSON_stringify B
                  (Arr (filter (cookieFilter (selectedDomainsForBackup i)) (allCookies i))))))"
    using emitted_handleEncPasswdSubmit_any [of B i]
    by (simp only: backup_text_eq)
  have b: "\<forall>t\<in>set (emitted (manualCookieBackup B profileName password cookies stamp err tg)).
        t = sjcl_encrypt B None password (JSON_stringify B (Arr cookies))"
    by (rule emitted_manualCookieBackup)
  have c: "JSON_parse B data = None \<or> (\<exists>w. JSON_parse B data = Some w \<and> \<not> is_wrapper w) \<longrightarrow>
        unwrap B enhanced data = PStr data
        \<and> (sjcl_decrypt B pw (PStr data) = Inr plain \<and> JSON_parse B plain = Some (Arr S)
             \<longrightarrow> decode B enhanced pw data = check_first S)"
    using unwrap_legacy [of B data enhanced] decode_cookies [of B enhanced data "PStr data" pw plain S]
    by blast
  show ?thesis
    using a b c by blast
qed

lemma emitted_manual_demo:
  "emitted (manualCookieBackup demo_host (js ''work'') (js ''pass'') [cookie_host]
      (js ''01-02-2025-10-00-00'') None True) = [cipher_host, cipher_host]"
proof -
  have pw: "js ''pass'' \<noteq> []" by (simp add: js_def)
  show ?thesis
    using pw by (simp add: manualCookieBackup_def Let_def stringify_host sjcl_encrypt_host)
qed

theorem legacy_read_and_write_witness:
  "JSON_parse demo_host cipher_host = None
   \<and> sjcl_decrypt demo_host (js ''pass'') (PStr cipher_host) = Inr text_host
   \<and> JSON_parse demo_host text_host = Some (Arr [cookie_host])
   \<and> unwrap demo_host True cipher_host = PStr cipher_host
   \<and> decode demo_host True (js ''pass'') cipher_host = Inr [cookie_host]
   \<and> set (emitted (handleEncPasswdSubmit demo_host demo_input))
       = {JSON_stringify demo_host (wrap True cipher_host)}
   \<and> set (emitted (manualCookieBackup demo_host (js ''work'') (js ''pass'') [cookie_host]
            (js ''01-02-2025-10-00-00'') None True))
       = {cipher_host}"
proof -
  note th = legacy_read_and_write [of demo_host demo_input "js ''work''" "js ''pass''"
      "[cookie_host]" "js ''01-02-2025-10-00-00''" None True cipher_host True "js ''pass''"
      text_host "[cookie_host]"]
  have u: "unwrap demo_host True cipher_host = PStr cipher_host"
    using th parse_cipher_host by blast
  have "decode demo_host True (js ''pass'') cipher_host = check_first [cookie_host]"
    using th parse_cipher_host decrypt_host parse_host by blast
  then have d: "decode demo_host True (js ''pass'') cipher_host = Inr [cookie_host]"
    by (simp add: check_first_def cookie_defs)
  have e: "set (emitted (handleEncPasswdSubmit demo_host demo_input))
       = {JSON_stringify demo_host (wrap True cipher_host)}"
    by (simp add: emitted_demo stringify_wrapped)
  have m: "set (emitted (manualCookieBackup demo_host (js ''work'') (js ''pass'') [cookie_host]
            (js ''01-02-2025-10-00-00'') None True))
       = {cipher_host}"
    by (simp add: emitted_manual_demo)
  show ?thesis
    using parse_cipher_host decrypt_host parse_host u d e m by blast
qed

text \<open>
  The claim C7 as it is written fails on \<open>manualCookieBackup\<close>: the text that it gives
  to the download and to the messaging service is the ciphertext itself, which is not the
  text of the wrapper and which the restore handles as a bare ciphertext.
\<close>

theorem legacy_write_counterexample:
  "manualCookieBackup demo_host (js ''work'') (js ''pass'') [cookie_host]
       (js ''01-02-2025-10-00-00'') None True
     = [Download cipher_host (js ''cookies-work-01-02-2025-10-00-00.ckz''),
        SuccessMessage ([226, 339, 8230] @ js '' Backup saved as cookies-work-01-02-2025-10-00-00.ckz''),
        TelegramPush cipher_host (js ''cookies-work-01-02-2025-10-00-00.ckz''),
        CoreHistoryAdd (js ''manual'') (js ''cookies-work-01-02-2025-10-00-00.ckz'') 1]
   \<and> cipher_host = sjcl_encrypt demo_host None (js ''pass'')
                      (JSON_stringify demo_host (Arr [cookie_host]))
   \<and> cipher_host \<noteq> JSON_stringify demo_host (wrap True cipher_host)
   \<and> JSON_parse demo_host cipher_host = None
   \<and> unwrap demo_host True cipher_host = PStr cipher_host"
proof -
  have pw: "js ''pass'' \<noteq> []" "js ''work'' \<noteq> []" by (simp_all add: js_def)
  have names: "js ''cookies-'' @ js ''work'' @ js ''-'' @ js ''01-02-2025-10-00-00'' @ js ''.ckz''
      = js ''cookies-work-01-02-2025-10-00-00.ckz''"
    "js '' Backup saved as '' @ js ''cookies-work-01-02-2025-10-00-00.ckz''
      = js '' Backup saved as cookies-work-01-02-2025-10-00-00.ckz''"
    by (simp_all add: js_def)
  have a: "manualCookieBackup demo_host (js ''work'') (js ''pass'') [cookie_host]
       (js ''01-02-2025-10-00-00'') None True
     = [Download cipher_host (js ''cookies-work-01-02-2025-10-00-00.ckz''),
        SuccessMessage ([226, 339, 8230] @ js '' Backup saved as cookies-work-01-02-2025-10-00-00.ckz''),
        TelegramPush cipher_host (js ''cookies-work-01-02-2025-10-00-00.ckz''),
        CoreHistoryAdd (js ''manual'') (js ''cookies-work-01-02-2025-10-00-00.ckz'') 1]"
    using pw by (simp add: manualCookieBackup_def Let_def stringify_host sjcl_encrypt_host names)
  have b: "cipher_host = sjcl_encrypt demo_host None (js ''pass'')
                      (JSON_stringify demo_host (Arr [cookie_host]))"
    by (simp add: stringify_host sjcl_encrypt_host)
  have c: "cipher_host \<noteq> JSON_stringify demo_host (wrap True cipher_host)"
    by (simp add: stringify_wrapped texts_distinct)
  have u: "unwrap demo_host True cipher_host = PStr cipher_host"
    using unwrap_legacy [of demo_host cipher_host True] parse_cipher_host by blast
  show ?thesis
    using a b c parse_cipher_host u by blast
qed


end
